theory Spec2Isabelle
  imports Main
begin

section \<open>JavaScript values\<close>

text \<open>
  The handlers of the dashboard backend receive JSON bodies and test them with JavaScript's
  truthiness (\<^verbatim>\<open>!message\<close>, \<^verbatim>\<open>!authToken\<close>, \<^verbatim>\<open>a || b\<close>) and splice them into
  template literals. A value is therefore modelled with its JavaScript kind. \<open>Undefined\<close> is
  what reading an absent property gives. Numbers are restricted to the integers (a JSON body
  may carry others; no handler computes with them).

  Text is a HOL \<open>string\<close>. The few characters of the source's literals that are not ASCII
  are spelled by their UTF-8 bytes, as they travel on the response connection. What depends
  on how JavaScript itself counts or prints (\<^verbatim>\<open>String.prototype.slice\<close>, the digits of a
  number) is left to the runtime, below.
\<close>

datatype jsval =
    Undefined
  | Null
  | Bool bool
  | Num int
  | Str string
  | Arr "jsval list"
  | Obj "(string \<times> jsval) list"

text \<open>ToBoolean: what \<^verbatim>\<open>if (v)\<close>, \<^verbatim>\<open>!v\<close> and \<^verbatim>\<open>v || w\<close> test.\<close>

fun truthy :: "jsval \<Rightarrow> bool" where
  "truthy Undefined = False"
| "truthy Null = False"
| "truthy (Bool b) = b"
| "truthy (Num n) = (n \<noteq> 0)"
| "truthy (Str s) = (s \<noteq> [])"
| "truthy (Arr xs) = True"
| "truthy (Obj kvs) = True"

text \<open>\<^verbatim>\<open>typeof v === "string"\<close>.\<close>

fun is_string :: "jsval \<Rightarrow> bool" where
  "is_string (Str s) = True"
| "is_string v = False"

text \<open>
  The decimal digits of a natural number: how a template literal prints the length of an
  array and the number of a row, which stay far below the size from which JavaScript
  switches to exponent notation. \<open>show_int\<close> serves the example runtime only.
\<close>

definition digit_char :: "nat \<Rightarrow> char" where
  "digit_char d = ''0123456789'' ! d"

fun show_nat :: "nat \<Rightarrow> string" where
  "show_nat n =
     (if n < 10 then [digit_char n] else show_nat (n div 10) @ [digit_char (n mod 10)])"

declare show_nat.simps [simp del]

definition show_int :: "int \<Rightarrow> string" where
  "show_int i = (if i < 0 then CHR ''-'' # show_nat (nat (- i)) else show_nat (nat i))"

text \<open>\<^verbatim>\<open>Array.prototype.join\<close> on an array of strings.\<close>

fun join :: "string \<Rightarrow> string list \<Rightarrow> string" where
  "join sep [] = []"
| "join sep [x] = x"
| "join sep (x # y # ys) = x @ sep @ join sep (y # ys)"

text \<open>A thrown or rejected error, by its message.\<close>

type_synonym error = string

text \<open>
  The functions of the JavaScript runtime that the handlers call and that are no code of the
  repository: \<^verbatim>\<open>JSON.parse\<close> (which throws on text that is not JSON),
  \<^verbatim>\<open>JSON.stringify\<close>, the printing of a number, and \<^verbatim>\<open>s.slice(from, to)\<close> on a
  string (which counts UTF-16 code units). They are parameters of every handler.
\<close>

record runtime =
  JSON_parse :: "string \<Rightarrow> error + jsval"
  JSON_stringify :: "jsval \<Rightarrow> string"
  Number_toString :: "int \<Rightarrow> string"
  String_slice :: "string \<Rightarrow> nat \<Rightarrow> nat \<Rightarrow> string"

text \<open>
  ToString, as a template literal \<^verbatim>\<open>`${v}`\<close> and \<^verbatim>\<open>"text" + v\<close> apply it to a value
  that came out of \<^verbatim>\<open>JSON.parse\<close>. An array joins its elements with commas, \<^verbatim>\<open>null\<close>
  and \<^verbatim>\<open>undefined\<close> elements giving the empty text. A plain object gives
  \<^verbatim>\<open>[object Object]\<close> through \<^verbatim>\<open>Object.prototype.toString\<close>, unless it has a member
  named \<^verbatim>\<open>toString\<close> of its own: that member is no function, the inherited
  \<^verbatim>\<open>valueOf\<close> gives back the object, and the conversion throws a \<^verbatim>\<open>TypeError\<close>.
\<close>

definition not_primitive :: error where
  "not_primitive = ''TypeError: Cannot convert object to primitive value''"

fun to_string :: "'a runtime_scheme \<Rightarrow> jsval \<Rightarrow> error + string"
  and elements_text :: "'a runtime_scheme \<Rightarrow> jsval list \<Rightarrow> error + string list" where
  "to_string rt Undefined = Inr ''undefined''"
| "to_string rt Null = Inr ''null''"
| "to_string rt (Bool b) = Inr (if b then ''true'' else ''false'')"
| "to_string rt (Num n) = Inr (Number_toString rt n)"
| "to_string rt (Str s) = Inr s"
| "to_string rt (Arr xs) =
     (case elements_text rt xs of Inl err \<Rightarrow> Inl err | Inr ss \<Rightarrow> Inr (join '','' ss))"
| "to_string rt (Obj kvs) =
     (if ''toString'' \<in> set (map fst kvs) then Inl not_primitive else Inr ''[object Object]'')"
| "elements_text rt [] = Inr []"
| "elements_text rt (x # xs) =
     (case (if x = Undefined \<or> x = Null then Inr [] else to_string rt x) of
        Inl err \<Rightarrow> Inl err
      | Inr s \<Rightarrow>
          (case elements_text rt xs of Inl err \<Rightarrow> Inl err | Inr ss \<Rightarrow> Inr (s # ss)))"

text \<open>Reading a property of an object literal: \<^verbatim>\<open>o[k]\<close>, \<open>Undefined\<close> when absent.\<close>

definition get_prop :: "(string \<times> jsval) list \<Rightarrow> string \<Rightarrow> jsval" where
  "get_prop kvs k = (case map_of kvs k of None \<Rightarrow> Undefined | Some v \<Rightarrow> v)"

section \<open>Effects\<close>

text \<open>
  A handler is modelled by the sequence of calls it makes on the outside world, in program
  order: on the Express response (\<^verbatim>\<open>res.setHeader\<close>, \<^verbatim>\<open>res.status\<close>, \<^verbatim>\<open>res.json\<close>,
  \<^verbatim>\<open>res.write\<close>, \<^verbatim>\<open>res.end\<close>), on the completion provider
  (\<^verbatim>\<open>openai.chat.completions.create\<close>), on the web search (\<^verbatim>\<open>google.search\<close>), on
  \<^verbatim>\<open>fetch\<close> and on the console. What the outside world answers is a parameter of the
  handler. \<open>Uncaught\<close> closes the trace of a handler that throws with no \<^verbatim>\<open>catch\<close>
  left to receive it: nothing more is called on the response, which is not ended.
\<close>

record message =
  role :: string
  content :: jsval

record completion_request =
  model :: string
  stream :: bool
  temperature :: string
  tools :: jsval
  messages :: "message list"

datatype fetch_body = Form "(string \<times> string) list" | Text string

record fetch_request =
  url :: string
  http_method :: string
  req_headers :: "(string \<times> string) list"
  req_body :: fetch_body

datatype action =
    SetHeader string string
  | Status nat
  | Json jsval
  | Write string
  | End "string option"
  | Create completion_request
  | Search jsval
  | Fetch fetch_request
  | Console string "jsval list"
  | Uncaught error

text \<open>The observations the claims are stated on.\<close>

fun written :: "action list \<Rightarrow> string list" where
  "written [] = []"
| "written (Write s # as) = s # written as"
| "written (a # as) = written as"

fun provider_requests :: "action list \<Rightarrow> completion_request list" where
  "provider_requests [] = []"
| "provider_requests (Create r # as) = r # provider_requests as"
| "provider_requests (a # as) = provider_requests as"

fun searches :: "action list \<Rightarrow> jsval list" where
  "searches [] = []"
| "searches (Search q # as) = q # searches as"
| "searches (a # as) = searches as"

fun fetches :: "action list \<Rightarrow> fetch_request list" where
  "fetches [] = []"
| "fetches (Fetch r # as) = r # fetches as"
| "fetches (a # as) = fetches as"

fun json_payloads :: "action list \<Rightarrow> jsval list" where
  "json_payloads [] = []"
| "json_payloads (Json v # as) = v # json_payloads as"
| "json_payloads (a # as) = json_payloads as"

fun statuses :: "action list \<Rightarrow> nat list" where
  "statuses [] = []"
| "statuses (Status n # as) = n # statuses as"
| "statuses (a # as) = statuses as"

fun ends :: "action list \<Rightarrow> string option list" where
  "ends [] = []"
| "ends (End m # as) = m # ends as"
| "ends (a # as) = ends as"

text \<open>
  What the client sees of an Express response: everything but the console and the outbound
  calls.
\<close>

fun client_visible :: "action list \<Rightarrow> action list" where
  "client_visible [] = []"
| "client_visible (Console l xs # as) = client_visible as"
| "client_visible (Uncaught err # as) = client_visible as"
| "client_visible (Create r # as) = client_visible as"
| "client_visible (Search q # as) = client_visible as"
| "client_visible (Fetch r # as) = client_visible as"
| "client_visible (a # as) = a # client_visible as"

text \<open>
  \<^verbatim>\<open>res.headersSent\<close>: Node sends the header block with the first body write; setting a
  header or the status code does not send anything.
\<close>

fun sends :: "action \<Rightarrow> bool" where
  "sends (Write s) = True"
| "sends (Json v) = True"
| "sends (End m) = True"
| "sends a = False"

definition headersSent :: "action list \<Rightarrow> bool" where
  "headersSent tr = list_ex sends tr"

section \<open>Dataset loader\<close>

text \<open>
  \<^verbatim>\<open>loadDataset\<close> reads \<^verbatim>\<open>./ai_db.csv\<close> and hands it to the CSV parser with
  \<^verbatim>\<open>columns: true\<close>, which gives one object per data row, keyed by the header row, every
  value a string. File reading and parsing are not part of the repository: their outcome,
  the parsed rows or the error thrown, is the argument \<open>parsed\<close>. The emoji that open the
  log lines are the constants below.
\<close>

type_synonym row = "(string \<times> string) list"

definition check_mark :: string where
  "check_mark = [CHR 0xE2, CHR 0x9C, CHR 0x85]"

definition cross_mark :: string where
  "cross_mark = [CHR 0xE2, CHR 0x9D, CHR 0x8C]"

text \<open>\<^verbatim>\<open>row[c]\<close> is truthy: the column exists and its value is not the empty string.\<close>

definition field_truthy :: "row \<Rightarrow> string \<Rightarrow> bool" where
  "field_truthy r c = (case map_of r c of None \<Rightarrow> False | Some v \<Rightarrow> v \<noteq> [])"

definition complete_row :: "row \<Rightarrow> bool" where
  "complete_row r \<longleftrightarrow>
     field_truthy r ''INFRA_ID'' \<and> field_truthy r ''NAME'' \<and>
     field_truthy r ''AI_TYPE'' \<and> field_truthy r ''TASKS''"

text \<open>
  The variants without sessions (first part of \<^verbatim>\<open>server.mjs\<close>, and the keyword-gated
  server): the global \<^verbatim>\<open>dataset\<close> is replaced on success and left as it was when reading
  or parsing throws.
\<close>

definition loadDataset :: "error + row list \<Rightarrow> row list \<Rightarrow> action list \<times> row list" where
  "loadDataset parsed dataset =
     (case parsed of
        Inr recs \<Rightarrow>
          (let rows = filter complete_row recs
           in ([Console ''log''
                  [Str (check_mark @ '' Loaded '' @ show_nat (length rows) @ '' valid rows'')]],
               rows))
      | Inl err \<Rightarrow>
          ([Console ''error'' [Str (cross_mark @ '' Failed to load CSV:''), Str err]],
           dataset))"

text \<open>
  The session-enabled variant also renders the kept rows into the global
  \<^verbatim>\<open>fullDatasetDump\<close>, one line per row; a column the file does not have renders as
  \<^verbatim>\<open>undefined\<close>.
\<close>

record globals =
  dataset :: "row list"
  fullDatasetDump :: string

definition field_text :: "row \<Rightarrow> string \<Rightarrow> string" where
  "field_text r c = (case map_of r c of None \<Rightarrow> ''undefined'' | Some v \<Rightarrow> v)"

definition dump_line :: "row \<Rightarrow> string" where
  "dump_line r =
     ''INFRA_ID: '' @ field_text r ''INFRA_ID'' @ '' | NAME: '' @ field_text r ''NAME'' @
     '' | AI_TYPE: '' @ field_text r ''AI_TYPE'' @ '' | TASKS: '' @ field_text r ''TASKS'' @
     '' | FOUNDATIONAL_MODEL: '' @ field_text r ''FOUNDATIONAL_MODEL'' @
     '' | YEAR_LAUNCHED: '' @ field_text r ''YEAR_LAUNCHED''"

definition loadDataset_sessions :: "error + row list \<Rightarrow> globals \<Rightarrow> action list \<times> globals" where
  "loadDataset_sessions parsed g =
     (case parsed of
        Inr recs \<Rightarrow>
          (let rows = filter complete_row recs
           in ([Console ''log''
                  [Str (check_mark @ '' Loaded '' @ show_nat (length rows) @ '' valid rows'')],
                Console ''log'' [Str (check_mark @ '' Pre-processed full dataset dump'')]],
               \<lparr>dataset = rows,
                fullDatasetDump = join ''\<newline>'' (map dump_line rows)\<rparr>))
      | Inl err \<Rightarrow>
          ([Console ''error'' [Str (cross_mark @ '' Failed to load CSV:''), Str err]], g))"

section \<open>Token proxy\<close>

text \<open>
  Both token endpoints translate one request into one \<^verbatim>\<open>fetch\<close>. Their outside world
  adds to the runtime the three credentials of \<^verbatim>\<open>process.env\<close> (absent, or a string) and
  what \<^verbatim>\<open>fetch\<close> answers to a request (a rejection, or a response with its \<^verbatim>\<open>ok\<close>
  flag, status and body text). \<^verbatim>\<open>response.json()\<close> is \<^verbatim>\<open>JSON.parse\<close> of the body
  text, and rejects when that throws.
\<close>

record fetch_response =
  resp_ok :: bool
  resp_status :: nat
  resp_text :: string

record token_env = runtime +
  TENANT_ID :: "string option"
  CLIENT_ID :: "string option"
  CLIENT_SECRET :: "string option"
  fetch :: "fetch_request \<Rightarrow> error + fetch_response"

text \<open>An environment variable in a template literal, and under \<^verbatim>\<open>!\<close>.\<close>

definition env_text :: "string option \<Rightarrow> string" where
  "env_text v = (case v of None \<Rightarrow> ''undefined'' | Some s \<Rightarrow> s)"

definition env_truthy :: "string option \<Rightarrow> bool" where
  "env_truthy v = (case v of None \<Rightarrow> False | Some s \<Rightarrow> s \<noteq> [])"

text \<open>
  Reading a property \<^verbatim>\<open>v.k\<close> of a parsed JSON value: a \<^verbatim>\<open>TypeError\<close> on \<^verbatim>\<open>null\<close> and
  \<^verbatim>\<open>undefined\<close>, the member of an object, and \<^verbatim>\<open>undefined\<close> on everything else (the
  keys read here, \<^verbatim>\<open>authToken\<close> and \<^verbatim>\<open>query\<close>, are no built-in property of a
  string, a number, a boolean or an array).
\<close>

definition type_error :: "string \<Rightarrow> string \<Rightarrow> error" where
  "type_error what k =
     ''TypeError: Cannot read properties of '' @ what @ '' (reading '' @ [CHR 0x27] @ k @
     [CHR 0x27] @ '')''"

fun member :: "jsval \<Rightarrow> string \<Rightarrow> error + jsval" where
  "member Undefined k = Inl (type_error ''undefined'' k)"
| "member Null k = Inl (type_error ''null'' k)"
| "member (Obj kvs) k = Inr (get_prop kvs k)"
| "member v k = Inr Undefined"

definition GROUP_ID :: string where
  "GROUP_ID = ''4c6a6199-2d9c-423c-a366-7e72edc983ad''"

definition REPORT_ID :: string where
  "REPORT_ID = ''9f92cc54-8318-44c4-a671-a020ea14ef56''"

definition auth_request :: "token_env \<Rightarrow> fetch_request" where
  "auth_request env =
     \<lparr>url = ''https://login.microsoftonline.com/'' @ env_text (TENANT_ID env) @
              ''/oauth2/v2.0/token'',
      http_method = ''POST'',
      req_headers = [(''Content-Type'', ''application/x-www-form-urlencoded'')],
      req_body = Form [(''grant_type'', ''client_credentials''),
                       (''client_id'', env_text (CLIENT_ID env)),
                       (''client_secret'', env_text (CLIENT_SECRET env)),
                       (''scope'', ''https://analysis.windows.net/powerbi/api/.default'')]\<rparr>"

text \<open>
  The request for an embed token; \<open>shown\<close> is what \<^verbatim>\<open>`Bearer ${authToken}`\<close> prints of
  the token.
\<close>

definition embed_request :: "token_env \<Rightarrow> string \<Rightarrow> fetch_request" where
  "embed_request env shown =
     \<lparr>url = ''https://api.powerbi.com/v1.0/myorg/groups/'' @ GROUP_ID @ ''/reports/'' @
              REPORT_ID @ ''/GenerateToken'',
      http_method = ''POST'',
      req_headers = [(''Content-Type'', ''application/json''),
                     (''Authorization'', ''Bearer '' @ shown)],
      req_body = Text (JSON_stringify env (Obj [(''accessLevel'', Str ''View'')]))\<rparr>"

subsection \<open>The Express handlers\<close>

text \<open>
  \<^verbatim>\<open>app.post("/auth-token")\<close> and \<^verbatim>\<open>app.post("/embed-token")\<close> of \<^verbatim>\<open>server.mjs\<close>
  (both parts of the file have the same two handlers). Neither tests its inputs before
  calling \<^verbatim>\<open>fetch\<close>; everything thrown inside \<^verbatim>\<open>try\<close>, the printing of the token
  into the header included, ends in the \<^verbatim>\<open>catch\<close>.
  The argument of \<open>embed_token_express\<close> is \<^verbatim>\<open>req.body.authToken\<close>, \<open>Undefined\<close>
  when the body has no such member.
\<close>

definition auth_token_failed :: "error \<Rightarrow> action list" where
  "auth_token_failed err =
     [Console ''error'' [Str ''Auth token error:'', Str err],
      Status 500, Json (Obj [(''error'', Str ''Failed to fetch auth token'')])]"

definition auth_token_express :: "token_env \<Rightarrow> action list" where
  "auth_token_express env =
     Fetch (auth_request env) #
     (case fetch env (auth_request env) of
        Inl err \<Rightarrow> auth_token_failed err
      | Inr response \<Rightarrow>
          if \<not> resp_ok response then auth_token_failed ''Error: Auth token request failed''
          else (case JSON_parse env (resp_text response) of
                  Inl err \<Rightarrow> auth_token_failed err
                | Inr data \<Rightarrow> [Json data]))"

definition embed_token_failed :: "error \<Rightarrow> action list" where
  "embed_token_failed err =
     [Console ''error'' [Str ''Embed token error:'', Str err],
      Status 500, Json (Obj [(''error'', Str ''Failed to get embed token'')])]"

definition embed_token_express :: "token_env \<Rightarrow> jsval \<Rightarrow> action list" where
  "embed_token_express env authToken =
     (case to_string env authToken of
        Inl err \<Rightarrow> embed_token_failed err
      | Inr shown \<Rightarrow>
          Fetch (embed_request env shown) #
          (case fetch env (embed_request env shown) of
             Inl err \<Rightarrow> embed_token_failed err
           | Inr response \<Rightarrow>
               if \<not> resp_ok response
               then embed_token_failed ''Error: Failed to get embed token''
               else (case JSON_parse env (resp_text response) of
                       Inl err \<Rightarrow> embed_token_failed err
                     | Inr data \<Rightarrow> [Json data])))"

subsection \<open>The Lambda handler\<close>

text \<open>
  \<^verbatim>\<open>lambda/index.mjs\<close> answers with an object \<^verbatim>\<open>{statusCode, headers, body}\<close>. Its two
  route functions have no \<^verbatim>\<open>try\<close> of their own: what they throw (a rejected \<^verbatim>\<open>fetch\<close>,
  a body that is not JSON, a property read on \<^verbatim>\<open>null\<close>) is the \<open>Inl\<close> of their result,
  and \<^verbatim>\<open>handler\<close> catches it.
\<close>

record lambda_response =
  statusCode :: nat
  headers :: "(string \<times> string) list"
  body :: string

record event =
  requestContext_http_method :: "string option"
  httpMethod :: "string option"
  rawPath :: "string option"
  path :: "string option"
  event_body :: "string option"

definition CORS_HEADERS :: "(string \<times> string) list" where
  "CORS_HEADERS =
     [(''Access-Control-Allow-Origin'', ''*''),
      (''Access-Control-Allow-Headers'', ''Content-Type''),
      (''Access-Control-Allow-Methods'', ''OPTIONS,POST'')]"

definition json_response :: "token_env \<Rightarrow> nat \<Rightarrow> jsval \<Rightarrow> lambda_response" where
  "json_response env code v =
     \<lparr>statusCode = code,
      headers = CORS_HEADERS @ [(''Content-Type'', ''application/json'')],
      body = JSON_stringify env v\<rparr>"

definition normalizePath :: "string \<Rightarrow> string" where
  "normalizePath p =
     (if p = [] then ''/''
      else (let noQuery = takeWhile (\<lambda>c. c \<noteq> CHR ''?'') p
            in if noQuery \<noteq> [] \<and> last noQuery = CHR ''/'' \<and> noQuery \<noteq> ''/''
               then butlast noQuery else noQuery))"

definition handleAuthToken :: "token_env \<Rightarrow> action list \<times> (error + lambda_response)" where
  "handleAuthToken env =
     (if \<not> env_truthy (TENANT_ID env) \<or> \<not> env_truthy (CLIENT_ID env) \<or>
         \<not> env_truthy (CLIENT_SECRET env)
      then ([Console ''error'' [Str ''Missing Azure AD env vars'']],
            Inr (json_response env 500
                   (Obj [(''error'',
                          Str ''Server is missing TENANT_ID, CLIENT_ID, or CLIENT_SECRET'')])))
      else (case fetch env (auth_request env) of
              Inl err \<Rightarrow> ([Fetch (auth_request env)], Inl err)
            | Inr response \<Rightarrow>
                if \<not> resp_ok response
                then ([Fetch (auth_request env),
                       Console ''error'' [Str ''Auth token request failed:'',
                                          Num (int (resp_status response)),
                                          Str (resp_text response)]],
                      Inr (json_response env 500
                             (Obj [(''error'', Str ''Failed to fetch auth token'')])))
                else (case JSON_parse env (resp_text response) of
                        Inl err \<Rightarrow> ([Fetch (auth_request env)], Inl err)
                      | Inr data \<Rightarrow>
                          ([Fetch (auth_request env)], Inr (json_response env 200 data)))))"

definition handleEmbedToken ::
  "token_env \<Rightarrow> jsval \<Rightarrow> action list \<times> (error + lambda_response)" where
  "handleEmbedToken env b =
     (case member b ''authToken'' of
        Inl err \<Rightarrow> ([], Inl err)
      | Inr authToken \<Rightarrow>
          if \<not> truthy authToken
          then ([], Inr (json_response env 400
                           (Obj [(''error'', Str ''Missing 'authToken' in request body'')])))
          else (case to_string env authToken of
                  Inl err \<Rightarrow> ([], Inl err)
                | Inr shown \<Rightarrow>
                    (case fetch env (embed_request env shown) of
                       Inl err \<Rightarrow> ([Fetch (embed_request env shown)], Inl err)
                     | Inr response \<Rightarrow>
                         if \<not> resp_ok response
                         then ([Fetch (embed_request env shown),
                                Console ''error'' [Str ''Embed token request failed:'',
                                                   Num (int (resp_status response)),
                                                   Str (resp_text response)]],
                               Inr (json_response env 500
                                      (Obj [(''error'', Str ''Failed to get embed token'')])))
                         else (case JSON_parse env (resp_text response) of
                                 Inl err \<Rightarrow> ([Fetch (embed_request env shown)], Inl err)
                               | Inr data \<Rightarrow>
                                   ([Fetch (embed_request env shown)],
                                    Inr (json_response env 200 data))))))"

text \<open>\<^verbatim>\<open>a || b || d\<close> on optional strings: the first that is present and not empty.\<close>

definition first_truthy :: "string option \<Rightarrow> string option \<Rightarrow> string \<Rightarrow> string" where
  "first_truthy a b d =
     (if env_truthy a then env_text a else if env_truthy b then env_text b else d)"

text \<open>
  The body of the event: an absent or empty one leaves \<^verbatim>\<open>{}\<close>, one that does not parse
  is logged and leaves \<^verbatim>\<open>{}\<close>, and one that parses is taken as it is, whatever JSON
  value it is.
\<close>

definition parse_body :: "token_env \<Rightarrow> string option \<Rightarrow> action list \<times> jsval" where
  "parse_body env b =
     (if env_truthy b
      then (case JSON_parse env (env_text b) of
              Inl err \<Rightarrow> ([Console ''error'' [Str ''Failed to parse JSON body:'', Str err]], Obj [])
            | Inr v \<Rightarrow> ([], v))
      else ([], Obj []))"

definition caught ::
  "token_env \<Rightarrow> action list \<times> (error + lambda_response) \<Rightarrow> action list \<times> lambda_response" where
  "caught env r =
     (case snd r of
        Inr resp \<Rightarrow> (fst r, resp)
      | Inl err \<Rightarrow>
          (fst r @ [Console ''error'' [Str ''Unhandled error in handler:'', Str err]],
           json_response env 500 (Obj [(''error'', Str ''Internal server error'')])))"

definition handler :: "token_env \<Rightarrow> event \<Rightarrow> action list \<times> lambda_response" where
  "handler env ev =
     (let method = first_truthy (requestContext_http_method ev) (httpMethod ev) ''GET'';
          pth = first_truthy (rawPath ev) (path ev) ''/''
      in if method = ''OPTIONS''
         then ([], \<lparr>statusCode = 200, headers = CORS_HEADERS, body = []\<rparr>)
         else (let parsed = parse_body env (event_body ev)
               in if method = ''POST'' \<and> normalizePath pth = ''/auth-token''
                  then (let r = caught env (handleAuthToken env) in (fst parsed @ fst r, snd r))
                  else if method = ''POST'' \<and> normalizePath pth = ''/embed-token''
                  then (let r = caught env (handleEmbedToken env (snd parsed))
                        in (fst parsed @ fst r, snd r))
                  else (fst parsed, json_response env 404 (Obj [(''error'', Str ''Not found'')]))))"

text \<open>A configuration that lacks one of the three credentials, as the Lambda tests it.\<close>

definition missing_credential :: "token_env \<Rightarrow> bool" where
  "missing_credential env \<longleftrightarrow>
     \<not> env_truthy (TENANT_ID env) \<or> \<not> env_truthy (CLIENT_ID env) \<or>
     \<not> env_truthy (CLIENT_SECRET env)"

section \<open>Chat orchestrator\<close>

text \<open>
  The completion provider streams chunks; of each chunk the handlers read
  \<^verbatim>\<open>chunk.choices?.[0]?.delta?.content\<close> and \<^verbatim>\<open>chunk.choices?.[0]?.delta?.tool_calls\<close>
  (absent links of the chain give \<open>None\<close> and the empty list). A streaming call is either
  refused, or delivers chunks and then ends, normally or with an error thrown by the
  iteration.
\<close>

record tool_function =
  fn_name :: "string option"
  fn_arguments :: "string option"

record tool_call =
  tc_function :: "tool_function option"

record chunk =
  delta_content :: "string option"
  delta_tool_calls :: "tool_call list"

datatype stream_result = CreateFailed error | Stream "chunk list" "error option"

record search_result =
  title :: string
  result_url :: string
  description :: "string option"

text \<open>
  The outside world of a chat handler: the streaming call, the plain call (whose answer is
  \<^verbatim>\<open>choices[0].message.content\<close>, or the error thrown on the way to it), and the web
  search (whose answer is \<^verbatim>\<open>searchResults.results\<close>, or the error thrown on the way).
  \<open>systemPrompt\<close> is the instruction text of the variant, a constant of the source on
  whose wording nothing below depends.
\<close>

record chat_env = runtime +
  systemPrompt :: string
  create_stream :: "completion_request \<Rightarrow> stream_result"
  create_completion :: "completion_request \<Rightarrow> error + jsval"
  google_search :: "jsval \<Rightarrow> error + search_result list"

definition token_of :: "chunk \<Rightarrow> string" where
  "token_of c = (case delta_content c of None \<Rightarrow> [] | Some s \<Rightarrow> s)"

definition stream_headers :: "action list" where
  "stream_headers =
     [SetHeader ''Content-Type'' ''text/event-stream'',
      SetHeader ''Cache-Control'' ''no-cache'',
      SetHeader ''Connection'' ''keep-alive'']"

definition search_tool :: "string \<Rightarrow> string \<Rightarrow> jsval" where
  "search_tool tool_description query_description =
     Arr [Obj [(''type'', Str ''function''),
               (''function'',
                Obj [(''name'', Str ''search''),
                     (''description'', Str tool_description),
                     (''parameters'',
                      Obj [(''type'', Str ''object''),
                           (''properties'',
                            Obj [(''query'',
                                  Obj [(''type'', Str ''string''),
                                       (''description'', Str query_description)])]),
                           (''required'', Arr [Str ''query''])])])]]"

subsection \<open>The variant without sessions\<close>

text \<open>
  \<^verbatim>\<open>app.post("/chat")\<close> of the first part of \<^verbatim>\<open>server.mjs\<close>: the whole dataset goes
  into the prompt, every chunk's text (also an empty one) is written, and one
  \<^verbatim>\<open>catch\<close> answers every failure after the validation.
\<close>

definition row_value :: "row \<Rightarrow> jsval" where
  "row_value r = Obj (map (\<lambda>(k, v). (k, Str v)) r)"

fun rowDump_lines :: "chat_env \<Rightarrow> nat \<Rightarrow> row list \<Rightarrow> string list" where
  "rowDump_lines env i [] = []"
| "rowDump_lines env i (r # rs) =
     (''Row '' @ show_nat (i + 1) @ '': '' @ JSON_stringify env (row_value r))
     # rowDump_lines env (i + 1) rs"

fun write_tokens :: "chunk list \<Rightarrow> action list" where
  "write_tokens [] = []"
| "write_tokens (c # cs) = Write (token_of c) # write_tokens cs"

text \<open>
  The \<^verbatim>\<open>catch\<close> of this handler calls \<^verbatim>\<open>res.status(500).json(...)\<close> whatever has been
  sent. \<^verbatim>\<open>res.status\<close> only stores the code. \<^verbatim>\<open>res.json\<close> sets a header on its way,
  which Node refuses once the header block is out: the call throws
  \<^verbatim>\<open>ERR_HTTP_HEADERS_SENT\<close> inside the \<^verbatim>\<open>catch\<close>, no payload is sent and the handler
  ends with the error uncaught.
\<close>

definition headers_already_sent :: error where
  "headers_already_sent =
     ''Error [ERR_HTTP_HEADERS_SENT]: Cannot set headers after they are sent to the client''"

definition chat_basic_failed :: "action list \<Rightarrow> error \<Rightarrow> action list" where
  "chat_basic_failed tr err =
     [Console ''error'' [Str (cross_mark @ '' Chat stream error:''), Str err], Status 500] @
     (if headersSent tr
      then [Uncaught headers_already_sent]
      else [Json (Obj [(''error'', Str ''Streaming chat failed.'')])])"

definition chat_basic_request :: "chat_env \<Rightarrow> row list \<Rightarrow> string \<Rightarrow> completion_request" where
  "chat_basic_request env ds msg =
     \<lparr>model = ''gpt-4o'', stream = True, temperature = ''0.3'',
      tools = search_tool
                ''Use this to enrich known tools/entities if data is missing from the dataset''
                ''Search query for additional company or tool details'',
      messages =
        [\<lparr>role = ''system'', content = Str (systemPrompt env)\<rparr>,
         \<lparr>role = ''user'',
          content = Str (''\<newline>The dataset includes '' @ show_nat (length ds) @
                         '' rows and 24 columns.\<newline>\<newline>Here is the full dataset:\<newline>'' @
                         join ''\<newline>'' (rowDump_lines env 0 ds) @
                         ''\<newline>\<newline>User Question:\<newline>'' @ msg @ ''\<newline>'')\<rparr>]\<rparr>"

definition chat_basic :: "chat_env \<Rightarrow> row list \<Rightarrow> jsval \<Rightarrow> action list" where
  "chat_basic env ds msg =
     (if \<not> truthy msg \<or> \<not> is_string msg
      then [Status 400, Json (Obj [(''error'', Str ''Missing or invalid 'message'.'')])]
      else (case to_string env msg of
              Inl err \<Rightarrow> chat_basic_failed [] err
            | Inr shown \<Rightarrow>
                (let request = chat_basic_request env ds shown;
                     tr0 = stream_headers @ [Create request]
                 in case create_stream env request of
                      CreateFailed err \<Rightarrow> tr0 @ chat_basic_failed tr0 err
                    | Stream chunks fin \<Rightarrow>
                        (case fin of
                           None \<Rightarrow> tr0 @ write_tokens chunks @ [End None]
                         | Some err \<Rightarrow>
                             tr0 @ write_tokens chunks @
                             chat_basic_failed (tr0 @ write_tokens chunks) err))))"

subsection \<open>The session-enabled variant\<close>

text \<open>
  The second part of \<^verbatim>\<open>server.mjs\<close> keeps \<^verbatim>\<open>const sessions = new Map()\<close>. A
  \<^verbatim>\<open>Map\<close> compares primitive keys by value and objects by identity: the
  \<^verbatim>\<open>sessionId\<close> of a request is a member of a freshly parsed body, so an array or an
  object is a key no other request can present. \<open>sessions_get\<close> therefore finds nothing
  under such a key, and \<open>sessions_set\<close> leaves what later requests can read unchanged.
  \<open>Undefined\<close>, the \<^verbatim>\<open>sessionId\<close> of a body without one, is a key like any other
  primitive.
\<close>

type_synonym sessions = "jsval \<Rightarrow> message list option"

fun by_identity :: "jsval \<Rightarrow> bool" where
  "by_identity (Arr xs) = True"
| "by_identity (Obj kvs) = True"
| "by_identity v = False"

definition sessions_get :: "sessions \<Rightarrow> jsval \<Rightarrow> message list option" where
  "sessions_get s k = (if by_identity k then None else s k)"

definition sessions_set :: "sessions \<Rightarrow> jsval \<Rightarrow> message list \<Rightarrow> sessions" where
  "sessions_set s k h = (if by_identity k then s else s(k \<mapsto> h))"

text \<open>\<^verbatim>\<open>sessions.get(sessionId) || []\<close>: the history a request finds under its key.\<close>

definition history_of :: "sessions \<Rightarrow> jsval \<Rightarrow> message list" where
  "history_of sess sessionId = (case sessions_get sess sessionId of None \<Rightarrow> [] | Some h \<Rightarrow> h)"

definition rsquo :: string where
  "rsquo = [CHR 0xE2, CHR 0x80, CHR 0x99]"

definition bullet :: string where
  "bullet = [CHR 0xE2, CHR 0x80, CHR 0xA2]"

definition mdash :: string where
  "mdash = [CHR 0xE2, CHR 0x80, CHR 0x94]"

definition warning_sign :: string where
  "warning_sign = [CHR 0xE2, CHR 0x9A, CHR 0xA0, CHR 0xEF, CHR 0xB8, CHR 0x8F]"

definition globe :: string where
  "globe = [CHR 0xF0, CHR 0x9F, CHR 0x8C, CHR 0x90]"

definition apology :: string where
  "apology = ''\<newline>\<newline>(Sorry, I couldn'' @ rsquo @ ''t fetch live updates right now.)\<newline>''"

definition error_marker :: string where
  "error_marker = ''\<newline>\<newline>[Error: Chat stream failed]''"

text \<open>
  One line of the search summary: \<^verbatim>\<open>r.description?.slice(0, 200) || ""\<close> is the
  runtime's slice of a description that is there, and the empty text otherwise.
\<close>

definition summary_line :: "chat_env \<Rightarrow> search_result \<Rightarrow> string" where
  "summary_line env r =
     bullet @ '' ['' @ title r @ '']('' @ result_url r @ '') '' @ mdash @ '' '' @
     (case description r of None \<Rightarrow> [] | Some d \<Rightarrow> String_slice env d 0 200)"

text \<open>
  The summarising request; \<open>shown\<close> is what the template literal prints of the query.
\<close>

definition followUp_request :: "chat_env \<Rightarrow> string \<Rightarrow> search_result list \<Rightarrow> completion_request" where
  "followUp_request env shown results =
     \<lparr>model = ''gpt-4o-mini'', stream = False, temperature = ''0.3'', tools = Undefined,
      messages =
        [\<lparr>role = ''system'', content = Str (systemPrompt env)\<rparr>,
         \<lparr>role = ''user'',
          content = Str (''Here are web search results for \"'' @ shown @ ''\":\<newline>'' @
                         join ''\<newline>'' (map (summary_line env) (take 3 results)) @
                         ''\<newline>\<newline>Summarize in two concise sentences.'')\<rparr>]\<rparr>"

text \<open>
  The state of the streaming loop is the pair of \<^verbatim>\<open>buffer\<close>, the accumulated reply, and
  the calls made so far. A step of the loop returns the new state and, when a statement
  outside every inner \<^verbatim>\<open>try\<close> throws, the error that leaves the loop for the outer
  \<^verbatim>\<open>catch\<close>.

  \<open>web_search\<close> is the block under \<^verbatim>\<open>if (q)\<close>. Its first statement logs the query
  through a template literal, before the inner \<^verbatim>\<open>try\<close>: a query that does not print
  leaves the loop. The inner \<^verbatim>\<open>catch\<close> answers alike a failed search, a failed
  summarising call and a summary that \<^verbatim>\<open>"\n\n" + final\<close> cannot print.
\<close>

type_synonym loop_state = "string \<times> action list"

definition searched ::
  "chat_env \<Rightarrow> jsval \<Rightarrow> string \<Rightarrow> loop_state \<Rightarrow> loop_state" where
  "searched env q shown st =
     (let log = Console ''log'' [Str (globe @ '' ME-AI websearch: '' @ shown)]
      in case google_search env q of
           Inl err \<Rightarrow>
             (fst st,
              snd st @ [log, Search q, Console ''error'' [Str ''Web search failed:'', Str err],
                        Write apology])
         | Inr results \<Rightarrow>
             (case create_completion env (followUp_request env shown results) of
                Inl err \<Rightarrow>
                  (fst st,
                   snd st @ [log, Search q, Create (followUp_request env shown results),
                             Console ''error'' [Str ''Web search failed:'', Str err],
                             Write apology])
              | Inr final \<Rightarrow>
                  (case to_string env final of
                     Inl err \<Rightarrow>
                       (fst st,
                        snd st @ [log, Search q, Create (followUp_request env shown results),
                                  Console ''error'' [Str ''Web search failed:'', Str err],
                                  Write apology])
                   | Inr summary \<Rightarrow>
                       (fst st @ ''\<newline>\<newline>'' @ summary,
                        snd st @ [log, Search q, Create (followUp_request env shown results),
                                  Write (''\<newline>\<newline>'' @ summary)]))))"

definition web_search ::
  "chat_env \<Rightarrow> jsval \<Rightarrow> loop_state \<Rightarrow> loop_state \<times> error option" where
  "web_search env q st =
     (case to_string env q of
        Inl err \<Rightarrow> (st, Some err)
      | Inr shown \<Rightarrow> (searched env q shown st, None))"

text \<open>
  The \<^verbatim>\<open>try\<close> around \<^verbatim>\<open>JSON.parse(toolCall.function.arguments || "{}")\<close> and
  \<^verbatim>\<open>args.query\<close>: \<open>Inl\<close> is what its \<^verbatim>\<open>catch\<close> receives.
\<close>

definition arguments_text :: "tool_function \<Rightarrow> string" where
  "arguments_text f =
     (case fn_arguments f of None \<Rightarrow> ''{}'' | Some a \<Rightarrow> if a = [] then ''{}'' else a)"

definition search_query :: "chat_env \<Rightarrow> tool_function \<Rightarrow> error + jsval" where
  "search_query env f =
     (case JSON_parse env (arguments_text f) of
        Inl err \<Rightarrow> Inl err
      | Inr args \<Rightarrow> member args ''query'')"

definition tool_step ::
  "chat_env \<Rightarrow> chunk \<Rightarrow> loop_state \<Rightarrow> loop_state \<times> error option" where
  "tool_step env c st =
     (case delta_tool_calls c of
        [] \<Rightarrow> (st, None)
      | toolCall # others \<Rightarrow>
          (case tc_function toolCall of
             None \<Rightarrow> (st, None)
           | Some f \<Rightarrow>
               if fn_name f = Some ''search''
               then (case search_query env f of
                       Inl err \<Rightarrow>
                         ((fst st,
                           snd st @
                           [Console ''warn''
                              [Str (warning_sign @ '' Skipping incomplete tool arguments:''),
                               (case fn_arguments f of None \<Rightarrow> Undefined | Some a \<Rightarrow> Str a)]]),
                          None)
                     | Inr q \<Rightarrow> if truthy q then web_search env q st else (st, None))
               else (st, None)))"

definition token_step :: "chunk \<Rightarrow> loop_state \<Rightarrow> loop_state" where
  "token_step c st =
     (if token_of c \<noteq> [] then (fst st @ token_of c, snd st @ [Write (token_of c)]) else st)"

definition process_chunk ::
  "chat_env \<Rightarrow> chunk \<Rightarrow> loop_state \<Rightarrow> loop_state \<times> error option" where
  "process_chunk env c st = tool_step env c (token_step c st)"

text \<open>The \<^verbatim>\<open>for await\<close> loop: it stops at the first step that throws.\<close>

fun process_chunks ::
  "chat_env \<Rightarrow> chunk list \<Rightarrow> loop_state \<Rightarrow> loop_state \<times> error option" where
  "process_chunks env [] st = (st, None)"
| "process_chunks env (c # cs) st =
     (case snd (process_chunk env c st) of
        Some err \<Rightarrow> process_chunk env c st
      | None \<Rightarrow> process_chunks env cs (fst (process_chunk env c st)))"

text \<open>
  The streaming request; \<open>shown\<close> is what the template literal prints of the message.
\<close>

definition chat_request :: "chat_env \<Rightarrow> globals \<Rightarrow> message list \<Rightarrow> string \<Rightarrow> completion_request" where
  "chat_request env g history shown =
     \<lparr>model = ''gpt-4o-mini'', stream = True, temperature = ''0.25'',
      tools = search_tool ''Fetch recent info or updates about a known tool from the web''
                ''Search query text'',
      messages =
        \<lparr>role = ''system'', content = Str (systemPrompt env)\<rparr> # history @
        [\<lparr>role = ''user'',
          content = Str (''Here is the full dataset:\<newline>'' @ fullDatasetDump g @
                         ''\<newline>\<newline>User: '' @ shown)\<rparr>]\<rparr>"

definition chat_failed :: "action list \<Rightarrow> error \<Rightarrow> action list" where
  "chat_failed tr err =
     Console ''error'' [Str (cross_mark @ '' Chat stream error:''), Str err] #
     (if \<not> headersSent tr
      then [Status 500, Json (Obj [(''error'', Str ''Streaming chat failed.'')])]
      else [End (Some error_marker)])"

text \<open>
  \<^verbatim>\<open>app.post("/chat")\<close> with sessions. The arguments are \<^verbatim>\<open>req.body.message\<close> and
  \<^verbatim>\<open>req.body.sessionId\<close>. The handler returns the calls it made and the session map it
  leaves: the two \<^verbatim>\<open>history.push\<close> and \<^verbatim>\<open>sessions.set\<close> are reached only when the
  loop has run to the end of the stream. The message is printed into the prompt inside the
  \<^verbatim>\<open>try\<close>, while the arguments of the streaming call are built: a message that does not
  print goes to the \<^verbatim>\<open>catch\<close> before the provider is called.
\<close>

definition chat ::
  "chat_env \<Rightarrow> globals \<Rightarrow> sessions \<Rightarrow> jsval \<Rightarrow> jsval \<Rightarrow> action list \<times> sessions" where
  "chat env g sess msg sessionId =
     (if \<not> truthy msg
      then ([Status 400, Json (Obj [(''error'', Str ''Missing 'message'.'')])], sess)
      else (case to_string env msg of
              Inl err \<Rightarrow> (stream_headers @ chat_failed stream_headers err, sess)
            | Inr shown \<Rightarrow>
                (let history = history_of sess sessionId;
                     request = chat_request env g history shown;
                     tr0 = stream_headers @ [Create request]
                 in case create_stream env request of
                      CreateFailed err \<Rightarrow> (tr0 @ chat_failed tr0 err, sess)
                    | Stream chunks fin \<Rightarrow>
                        (let r = process_chunks env chunks ([], tr0);
                             st = fst r
                         in case snd r of
                              Some err \<Rightarrow> (snd st @ chat_failed (snd st) err, sess)
                            | None \<Rightarrow>
                                (case fin of
                                   Some err \<Rightarrow> (snd st @ chat_failed (snd st) err, sess)
                                 | None \<Rightarrow>
                                     (snd st @ [End None],
                                      sessions_set sess sessionId
                                        (history @
                                         [\<lparr>role = ''user'', content = msg\<rparr>,
                                          \<lparr>role = ''assistant'',
                                           content = Str (fst st)\<rparr>])))))))"

subsection \<open>Observations on a stream\<close>

text \<open>
  What one chunk, taken alone, adds to the accumulated reply and what it writes to the
  response; and the reply accumulated over a whole stream.
\<close>

definition chunk_reply :: "chat_env \<Rightarrow> chunk \<Rightarrow> string" where
  "chunk_reply env c = fst (fst (process_chunk env c ([], [])))"

definition chunk_writes :: "chat_env \<Rightarrow> chunk \<Rightarrow> string list" where
  "chunk_writes env c = written (snd (fst (process_chunk env c ([], []))))"

definition accumulated_reply :: "chat_env \<Rightarrow> chunk list \<Rightarrow> string" where
  "accumulated_reply env chunks = fst (fst (process_chunks env chunks ([], [])))"

text \<open>
  The chunk asks for a search with a usable query that does not print: its step leaves the
  loop.
\<close>

definition query_throws :: "chat_env \<Rightarrow> chunk \<Rightarrow> bool" where
  "query_throws env c =
     (case delta_tool_calls c of
        [] \<Rightarrow> False
      | toolCall # others \<Rightarrow>
          (case tc_function toolCall of
             None \<Rightarrow> False
           | Some f \<Rightarrow>
               fn_name f = Some ''search'' \<and>
               (case search_query env f of
                  Inl err \<Rightarrow> False
                | Inr q \<Rightarrow>
                    truthy q \<and> (case to_string env q of Inl err \<Rightarrow> True | Inr shown \<Rightarrow> False))))"

text \<open>
  The chunk asks for a search with a usable query, and the search throws, or the call that
  summarises its results throws, or the summary it returns does not print.
\<close>

definition search_fails :: "chat_env \<Rightarrow> chunk \<Rightarrow> bool" where
  "search_fails env c =
     (case delta_tool_calls c of
        [] \<Rightarrow> False
      | toolCall # others \<Rightarrow>
          (case tc_function toolCall of
             None \<Rightarrow> False
           | Some f \<Rightarrow>
               fn_name f = Some ''search'' \<and>
               (case search_query env f of
                  Inl err \<Rightarrow> False
                | Inr q \<Rightarrow>
                    truthy q \<and>
                    (case to_string env q of
                       Inl err \<Rightarrow> False
                     | Inr shown \<Rightarrow>
                         (case google_search env q of
                            Inl err \<Rightarrow> True
                          | Inr results \<Rightarrow>
                              (case create_completion env (followUp_request env shown results) of
                                 Inl err \<Rightarrow> True
                               | Inr final \<Rightarrow>
                                   (case to_string env final of
                                      Inl err \<Rightarrow> True
                                    | Inr summary \<Rightarrow> False)))))))"

section \<open>Example inputs\<close>

text \<open>Rows: three complete ones, and one whose task list is empty.\<close>

definition row_a :: row where
  "row_a = [(''INFRA_ID'', ''1''), (''NAME'', ''Alpha''), (''AI_TYPE'', ''GenAI''),
            (''TASKS'', ''Upscaling''), (''YEAR_LAUNCHED'', ''2021'')]"

definition row_b :: row where
  "row_b = [(''INFRA_ID'', ''2''), (''NAME'', ''Beta''), (''AI_TYPE'', ''ML''),
            (''TASKS'', ''Tagging''), (''YEAR_LAUNCHED'', '''')]"

definition row_c :: row where
  "row_c = [(''INFRA_ID'', ''3''), (''NAME'', ''Gamma''), (''AI_TYPE'', ''GenAI''),
            (''TASKS'', ''Dubbing''), (''YEAR_LAUNCHED'', ''2023'')]"

definition row_no_tasks :: row where
  "row_no_tasks = [(''INFRA_ID'', ''4''), (''NAME'', ''Delta''), (''AI_TYPE'', ''ML''),
                   (''TASKS'', ''''), (''YEAR_LAUNCHED'', ''2020'')]"

definition demo_globals :: globals where
  "demo_globals = \<lparr>dataset = [row_a], fullDatasetDump = dump_line row_a\<rparr>"

text \<open>
  A runtime that parses the handful of JSON texts the examples use, throws on any other
  text, prints an object whose members are strings, prints integers in decimal and slices
  ASCII text.
\<close>

definition demo_parse :: "string \<Rightarrow> error + jsval" where
  "demo_parse s =
     (if s = ''{}'' then Inr (Obj [])
      else if s = ''null'' then Inr Null
      else if s = ''{\"query\":\"nexus\"}'' then Inr (Obj [(''query'', Str ''nexus'')])
      else if s = ''{\"authToken\":\"abc\"}'' then Inr (Obj [(''authToken'', Str ''abc'')])
      else Inl ''SyntaxError: Unexpected end of JSON input'')"

fun demo_member :: "string \<times> jsval \<Rightarrow> string" where
  "demo_member (k, Str v) = ''\"'' @ k @ ''\":\"'' @ v @ ''\"''"
| "demo_member (k, v) = ''\"'' @ k @ ''\":null''"

fun demo_stringify :: "jsval \<Rightarrow> string" where
  "demo_stringify (Obj kvs) = ''{'' @ join '','' (map demo_member kvs) @ ''}''"
| "demo_stringify v = ''null''"

definition demo_slice :: "string \<Rightarrow> nat \<Rightarrow> nat \<Rightarrow> string" where
  "demo_slice s a b = take (b - a) (drop a s)"

text \<open>
  Chunks: two of text, one asking for a search, one asking for it in its second tool call,
  one whose arguments are cut short.
\<close>

definition hello_chunk :: chunk where
  "hello_chunk = \<lparr>delta_content = Some ''Hello'', delta_tool_calls = []\<rparr>"

definition world_chunk :: chunk where
  "world_chunk = \<lparr>delta_content = Some '' world'', delta_tool_calls = []\<rparr>"

definition search_chunk :: chunk where
  "search_chunk =
     \<lparr>delta_content = None,
      delta_tool_calls =
        [\<lparr>tc_function = Some \<lparr>fn_name = Some ''search'',
                               fn_arguments = Some ''{\"query\":\"nexus\"}''\<rparr>\<rparr>]\<rparr>"

definition second_place_chunk :: chunk where
  "second_place_chunk =
     \<lparr>delta_content = None,
      delta_tool_calls =
        [\<lparr>tc_function = Some \<lparr>fn_name = Some ''lookup'', fn_arguments = Some ''{}''\<rparr>\<rparr>,
         \<lparr>tc_function = Some \<lparr>fn_name = Some ''search'',
                               fn_arguments = Some ''{\"query\":\"nexus\"}''\<rparr>\<rparr>]\<rparr>"

definition cut_chunk :: chunk where
  "cut_chunk =
     \<lparr>delta_content = None,
      delta_tool_calls =
        [\<lparr>tc_function = Some \<lparr>fn_name = Some ''search'',
                               fn_arguments = Some ''{\"que''\<rparr>\<rparr>]\<rparr>"

definition demo_stream :: "completion_request \<Rightarrow> stream_result" where
  "demo_stream r = Stream [hello_chunk, search_chunk, world_chunk] None"

definition search_only_stream :: "completion_request \<Rightarrow> stream_result" where
  "search_only_stream r = Stream [search_chunk] None"

definition broken_stream :: "completion_request \<Rightarrow> stream_result" where
  "broken_stream r = Stream [hello_chunk] (Some ''Error: stream aborted'')"

definition refused_stream :: "completion_request \<Rightarrow> stream_result" where
  "refused_stream r = CreateFailed ''Error: 401 Incorrect API key''"

definition demo_results :: "search_result list" where
  "demo_results =
     [\<lparr>title = ''Nexus 2'', result_url = ''https://a.example'', description = Some ''Released.''\<rparr>,
      \<lparr>title = ''Nexus blog'', result_url = ''https://b.example'', description = None\<rparr>,
      \<lparr>title = ''Nexus docs'', result_url = ''https://c.example'', description = Some ''''\<rparr>,
      \<lparr>title = ''Nexus forum'', result_url = ''https://d.example'', description = Some ''Q&A''\<rparr>]"

definition demo_search :: "jsval \<Rightarrow> error + search_result list" where
  "demo_search q = Inr demo_results"

definition failing_search :: "jsval \<Rightarrow> error + search_result list" where
  "failing_search q = Inl ''Error: getaddrinfo ENOTFOUND''"

definition demo_completion :: "completion_request \<Rightarrow> error + jsval" where
  "demo_completion r = Inr (Str ''Nexus 2 is out. It is faster.'')"

definition demo_env :: chat_env where
  "demo_env =
     \<lparr>JSON_parse = demo_parse, JSON_stringify = demo_stringify,
      Number_toString = show_int, String_slice = demo_slice,
      systemPrompt = ''You are ME-AI.'', create_stream = demo_stream,
      create_completion = demo_completion, google_search = demo_search\<rparr>"

definition failing_search_env :: chat_env where
  "failing_search_env =
     demo_env\<lparr>create_stream := search_only_stream, google_search := failing_search\<rparr>"

definition broken_stream_env :: chat_env where
  "broken_stream_env = demo_env\<lparr>create_stream := broken_stream\<rparr>"

definition refused_stream_env :: chat_env where
  "refused_stream_env = demo_env\<lparr>create_stream := refused_stream\<rparr>"

definition no_sessions :: sessions where
  "no_sessions = Map.empty"

text \<open>
  Token environments: one whose upstream refuses with a body of its own, and the same
  with a credential taken away.
\<close>

definition refusing_fetch :: "fetch_request \<Rightarrow> error + fetch_response" where
  "refusing_fetch r =
     Inr \<lparr>resp_ok = False, resp_status = 401,
          resp_text = ''{\"error\":{\"code\":\"TokenExpired\"}}''\<rparr>"

definition demo_token_env :: token_env where
  "demo_token_env =
     \<lparr>JSON_parse = demo_parse, JSON_stringify = demo_stringify,
      Number_toString = show_int, String_slice = demo_slice,
      TENANT_ID = Some ''tenant-1'', CLIENT_ID = Some ''client-1'',
      CLIENT_SECRET = Some ''s3cret'', fetch = refusing_fetch\<rparr>"

definition no_secret_env :: token_env where
  "no_secret_env = demo_token_env\<lparr>CLIENT_SECRET := None\<rparr>"

definition no_tenant_env :: token_env where
  "no_tenant_env = demo_token_env\<lparr>TENANT_ID := Some ''''\<rparr>"

definition embed_event :: "string option \<Rightarrow> event" where
  "embed_event b =
     \<lparr>requestContext_http_method = Some ''POST'', httpMethod = None,
      rawPath = Some ''/embed-token/'', path = None, event_body = b\<rparr>"

definition auth_event :: event where
  "auth_event =
     \<lparr>requestContext_http_method = None, httpMethod = Some ''POST'',
      rawPath = None, path = Some ''/auth-token?x=1'', event_body = None\<rparr>"

section \<open>Properties of the traces and of the streaming loop\<close>

text \<open>The observations distribute over the concatenation of traces.\<close>

lemma written_append: "written (xs @ ys) = written xs @ written ys"
  by (induction xs rule: written.induct) simp_all

lemma provider_requests_append:
  "provider_requests (xs @ ys) = provider_requests xs @ provider_requests ys"
  by (induction xs rule: provider_requests.induct) simp_all

lemma searches_append: "searches (xs @ ys) = searches xs @ searches ys"
  by (induction xs rule: searches.induct) simp_all

lemma json_payloads_append: "json_payloads (xs @ ys) = json_payloads xs @ json_payloads ys"
  by (induction xs rule: json_payloads.induct) simp_all

lemma statuses_append: "statuses (xs @ ys) = statuses xs @ statuses ys"
  by (induction xs rule: statuses.induct) simp_all

lemma ends_append: "ends (xs @ ys) = ends xs @ ends ys"
  by (induction xs rule: ends.induct) simp_all

text \<open>Each step of the loop only appends to the reply and to the calls made.\<close>

lemma searched_extends:
  "searched env q shown st =
     (fst st @ fst (searched env q shown ([], [])), snd st @ snd (searched env q shown ([], [])))"
  by (simp add: searched_def Let_def split: sum.splits)

lemma web_search_extends:
  "web_search env q st =
     ((fst st @ fst (fst (web_search env q ([], []))),
       snd st @ snd (fst (web_search env q ([], [])))),
      snd (web_search env q ([], [])))"
  using searched_extends [of env q _ st]
  by (simp add: web_search_def split: sum.splits)

lemma tool_step_extends:
  "tool_step env c st =
     ((fst st @ fst (fst (tool_step env c ([], []))),
       snd st @ snd (fst (tool_step env c ([], [])))),
      snd (tool_step env c ([], [])))"
  using web_search_extends [of env _ st]
  by (simp add: tool_step_def split: list.splits option.splits sum.splits)

lemma token_step_extends:
  "token_step c st =
     (fst st @ fst (token_step c ([], [])), snd st @ snd (token_step c ([], [])))"
  by (simp add: token_step_def)

lemma process_chunk_extends:
  "process_chunk env c st =
     ((fst st @ chunk_reply env c, snd st @ snd (fst (process_chunk env c ([], [])))),
      snd (process_chunk env c ([], [])))"
  unfolding process_chunk_def chunk_reply_def
  using tool_step_extends [of env c "token_step c st"]
    tool_step_extends [of env c "token_step c ([], [])"] token_step_extends [of c st]
  by simp

text \<open>
  A step leaves the loop exactly when its chunk asks for a search whose query does not
  print; the loop runs to the end of the chunks exactly when no chunk does.
\<close>

lemma process_chunk_throws: "snd (process_chunk env c st) \<noteq> None \<longleftrightarrow> query_throws env c"
  by (simp add: process_chunk_def tool_step_def web_search_def query_throws_def
      split: list.splits option.splits sum.splits)

lemma process_chunks_extends:
  "process_chunks env cs st =
     ((fst st @ fst (fst (process_chunks env cs ([], []))),
       snd st @ snd (fst (process_chunks env cs ([], [])))),
      snd (process_chunks env cs ([], [])))"
proof (induction cs arbitrary: st)
  case Nil
  show ?case by simp
next
  case (Cons c cs)
  show ?case
    using Cons.IH [of "fst (process_chunk env c st)"]
      Cons.IH [of "fst (process_chunk env c ([], []))"]
      process_chunk_extends [of env c st]
    by (simp add: chunk_reply_def split: option.splits)
qed

lemma process_chunks_step:
  "\<not> query_throws env c \<Longrightarrow>
     process_chunks env (c # cs) st = process_chunks env cs (fst (process_chunk env c st))"
  using process_chunk_throws [of env c st] by (simp split: option.splits)

lemma process_chunks_runs:
  "\<forall>c \<in> set cs. \<not> query_throws env c \<Longrightarrow> snd (process_chunks env cs st) = None"
proof (induction cs arbitrary: st)
  case Nil
  show ?case by simp
next
  case (Cons c cs)
  then show ?case by (simp add: process_chunks_step del: process_chunks.simps)
qed

lemma process_chunks_runs_iff:
  "snd (process_chunks env cs st) = None \<longleftrightarrow> (\<forall>c \<in> set cs. \<not> query_throws env c)"
proof (induction cs arbitrary: st)
  case Nil
  show ?case by simp
next
  case (Cons c cs)
  show ?case
  proof (cases "query_throws env c")
    case True
    then obtain err where "snd (process_chunk env c st) = Some err"
      using process_chunk_throws [of env c st] by auto
    then show ?thesis
      using True by simp
  next
    case False
    then show ?thesis
      using Cons.IH [of "fst (process_chunk env c st)"]
      by (simp add: process_chunks_step del: process_chunks.simps)
  qed
qed

text \<open>
  Over a loop that runs to the end, the reply and the written fragments are those of the
  chunks, one after the other.
\<close>

lemma process_chunks_reply:
  "\<forall>c \<in> set cs. \<not> query_throws env c \<Longrightarrow>
     fst (fst (process_chunks env cs st)) = fst st @ concat (map (chunk_reply env) cs)"
proof (induction cs arbitrary: st)
  case Nil
  show ?case by simp
next
  case (Cons c cs)
  then show ?case
    using process_chunk_extends [of env c st]
    by (simp add: process_chunks_step del: process_chunks.simps)
qed

lemma process_chunks_written:
  "\<forall>c \<in> set cs. \<not> query_throws env c \<Longrightarrow>
     written (snd (fst (process_chunks env cs st))) =
       written (snd st) @ concat (map (chunk_writes env) cs)"
proof (induction cs arbitrary: st)
  case Nil
  show ?case by simp
next
  case (Cons c cs)
  then show ?case
    using process_chunk_extends [of env c st]
    by (simp add: process_chunks_step written_append chunk_writes_def del: process_chunks.simps)
qed

section \<open>Properties of the dataset loader\<close>

lemma complete_row_examples:
  "complete_row row_a" "complete_row row_b" "complete_row row_c" "\<not> complete_row row_no_tasks"
  by (simp_all add: complete_row_def field_truthy_def row_a_def row_b_def row_c_def
      row_no_tasks_def)

lemma row_examples_distinct:
  "row_no_tasks \<noteq> row_a" "row_no_tasks \<noteq> row_b" "row_no_tasks \<noteq> row_c"
  by (simp_all add: row_a_def row_b_def row_c_def row_no_tasks_def)

text \<open>
  C7. Whenever the file is read and parsed, the loaded collection is the parsed rows with
  all four required fields (INFRA_ID, NAME, AI_TYPE, TASKS) present and non-empty, in file
  order and with nothing else: if every one of the N rows is complete the collection has N
  entries, and a row missing a required field is not in it. This holds for the loader of
  every variant of the server; the previous contents of the collection play no role.
\<close>

theorem loadDataset_keeps_exactly_complete_rows:
  "snd (loadDataset (Inr recs) old) = filter complete_row recs
   \<and> dataset (snd (loadDataset_sessions (Inr recs) g)) = filter complete_row recs
   \<and> set (snd (loadDataset (Inr recs) old)) = {r \<in> set recs. complete_row r}
   \<and> ((\<forall>r \<in> set recs. complete_row r) \<longrightarrow>
        snd (loadDataset (Inr recs) old) = recs
        \<and> length (snd (loadDataset (Inr recs) old)) = length recs
        \<and> length (dataset (snd (loadDataset_sessions (Inr recs) g))) = length recs)
   \<and> (\<forall>r \<in> set recs. \<not> complete_row r \<longrightarrow>
        r \<notin> set (snd (loadDataset (Inr recs) old))
        \<and> r \<notin> set (dataset (snd (loadDataset_sessions (Inr recs) g))))"
  by (simp add: loadDataset_def loadDataset_sessions_def Let_def)

theorem loadDataset_keeps_exactly_complete_rows_witness:
  "complete_row row_a \<and> complete_row row_b \<and> complete_row row_c
   \<and> length (snd (loadDataset (Inr [row_a, row_b, row_c]) [])) = 3
   \<and> row_no_tasks \<in> set [row_a, row_no_tasks, row_b, row_c, row_a]
   \<and> \<not> complete_row row_no_tasks
   \<and> row_no_tasks \<notin> set (snd (loadDataset (Inr [row_a, row_no_tasks, row_b, row_c, row_a]) []))
   \<and> length (snd (loadDataset (Inr [row_a, row_no_tasks, row_b, row_c, row_a]) [])) = 4"
  using loadDataset_keeps_exactly_complete_rows [of "[row_a, row_b, row_c]" "[]"]
    loadDataset_keeps_exactly_complete_rows [of "[row_a, row_no_tasks, row_b, row_c, row_a]" "[]"]
  by (simp add: complete_row_examples row_examples_distinct)

section \<open>Written output and stored reply\<close>

lemma chunk_writes_reply:
  "concat (chunk_writes env c) = chunk_reply env c @ (if search_fails env c then apology else [])"
  by (simp add: chunk_writes_def chunk_reply_def process_chunk_def token_step_def tool_step_def
      search_fails_def web_search_def searched_def Let_def written_append
      split: list.splits option.splits sum.splits)

lemma concat_chunk_writes:
  "\<forall>c \<in> set cs. \<not> search_fails env c \<Longrightarrow>
     concat (concat (map (chunk_writes env) cs)) = concat (map (chunk_reply env) cs)"
  by (induction cs) (simp_all add: chunk_writes_reply)

lemma accumulated_reply_eq:
  "\<forall>c \<in> set cs. \<not> query_throws env c \<Longrightarrow>
     accumulated_reply env cs = concat (map (chunk_reply env) cs)"
  by (simp add: accumulated_reply_def process_chunks_reply)

lemma written_stream_headers: "written stream_headers = []"
  by (simp add: stream_headers_def)

lemma chat_completed:
  assumes "truthy msg" and "to_string env msg = Inr shown"
    and "create_stream env (chat_request env g (history_of sess sid) shown) = Stream chunks None"
    and "\<forall>c \<in> set chunks. \<not> query_throws env c"
  shows "chat env g sess msg sid =
     (snd (fst (process_chunks env chunks
                  ([], stream_headers @ [Create (chat_request env g (history_of sess sid) shown)])))
        @ [End None],
      sessions_set sess sid
        (history_of sess sid @
         [\<lparr>role = ''user'', content = msg\<rparr>,
          \<lparr>role = ''assistant'', content = Str (accumulated_reply env chunks)\<rparr>]))"
  using assms
  by (simp add: chat_def Let_def accumulated_reply_eq process_chunks_reply process_chunks_runs)

text \<open>
  C1 (as amended). For a request of the session-enabled variant whose stream runs to its
  end (the message prints into the prompt as \<open>shown\<close>, the provider streams the chunks
  without failing and no step leaves the loop): the fragments written to the response are,
  chunk by chunk in the order the provider sent the chunks, what each chunk writes; a chunk
  writes what it adds to the accumulated reply, followed by the fixed apology when its web
  search or the summarising call fails; the accumulated reply is what the handler stores as
  the assistant turn of the session. Hence, when no search fails, the concatenation of the
  written fragments is the stored reply.
\<close>

theorem chat_written_is_stored_reply:
  assumes "truthy msg" and "to_string env msg = Inr shown"
    and "create_stream env (chat_request env g (history_of sess sid) shown) = Stream chunks None"
    and "\<forall>c \<in> set chunks. \<not> query_throws env c"
  shows "written (fst (chat env g sess msg sid)) = concat (map (chunk_writes env) chunks)
    \<and> concat (chunk_writes env c) =
        chunk_reply env c @ (if search_fails env c then apology else [])
    \<and> accumulated_reply env chunks = concat (map (chunk_reply env) chunks)
    \<and> snd (chat env g sess msg sid) =
        sessions_set sess sid
          (history_of sess sid @
           [\<lparr>role = ''user'', content = msg\<rparr>,
            \<lparr>role = ''assistant'', content = Str (accumulated_reply env chunks)\<rparr>])
    \<and> ((\<forall>c \<in> set chunks. \<not> search_fails env c) \<longrightarrow>
          concat (written (fst (chat env g sess msg sid))) = accumulated_reply env chunks)"
proof -
  note c = chat_completed [OF assms]
  have w: "written (fst (chat env g sess msg sid)) = concat (map (chunk_writes env) chunks)"
    using assms(4)
    by (simp add: c written_append process_chunks_written written_stream_headers)
  have s: "snd (chat env g sess msg sid) =
        sessions_set sess sid
          (history_of sess sid @
           [\<lparr>role = ''user'', content = msg\<rparr>,
            \<lparr>role = ''assistant'', content = Str (accumulated_reply env chunks)\<rparr>])"
    by (simp add: c)
  have a: "accumulated_reply env chunks = concat (map (chunk_reply env) chunks)"
    using assms(4) by (rule accumulated_reply_eq)
  have e: "(\<forall>c \<in> set chunks. \<not> search_fails env c) \<longrightarrow>
          concat (written (fst (chat env g sess msg sid))) = accumulated_reply env chunks"
    by (simp add: w a concat_chunk_writes)
  show ?thesis
    using w s e a chunk_writes_reply [of env c] by blast
qed

lemma demo_parse_query: "demo_parse ''{\"query\":\"nexus\"}'' = Inr (Obj [(''query'', Str ''nexus'')])"
  by (simp add: demo_parse_def)

lemma demo_search_query:
  "search_query demo_env \<lparr>fn_name = Some ''search'', fn_arguments = Some ''{\"query\":\"nexus\"}''\<rparr>
     = Inr (Str ''nexus'')"
  by (simp add: search_query_def arguments_text_def demo_env_def demo_parse_query get_prop_def)

lemma failing_search_query:
  "search_query failing_search_env
     \<lparr>fn_name = Some ''search'', fn_arguments = Some ''{\"query\":\"nexus\"}''\<rparr>
     = Inr (Str ''nexus'')"
  by (simp add: search_query_def arguments_text_def failing_search_env_def demo_env_def
      demo_parse_query get_prop_def)

lemma demo_no_search_fails:
  "\<not> search_fails demo_env hello_chunk" "\<not> search_fails demo_env search_chunk"
  "\<not> search_fails demo_env world_chunk"
    apply (simp add: search_fails_def hello_chunk_def)
   apply (simp add: search_fails_def search_chunk_def demo_search_query)
   apply (simp add: demo_env_def demo_search_def demo_completion_def)
  apply (simp add: search_fails_def world_chunk_def)
  done

lemma demo_no_query_throws:
  "\<not> query_throws env hello_chunk" "\<not> query_throws demo_env search_chunk"
  "\<not> query_throws env world_chunk" "\<not> query_throws failing_search_env search_chunk"
     apply (simp add: query_throws_def hello_chunk_def)
    apply (simp add: query_throws_def search_chunk_def demo_search_query)
   apply (simp add: query_throws_def world_chunk_def)
  apply (simp add: query_throws_def search_chunk_def failing_search_query)
  done

lemma demo_chunk_reply:
  "chunk_reply demo_env hello_chunk = ''Hello''"
  "chunk_reply demo_env search_chunk = ''\<newline>\<newline>Nexus 2 is out. It is faster.''"
  "chunk_reply demo_env world_chunk = '' world''"
    apply (simp add: chunk_reply_def process_chunk_def token_step_def tool_step_def token_of_def hello_chunk_def)
   apply (simp add: chunk_reply_def process_chunk_def token_step_def tool_step_def token_of_def search_chunk_def demo_search_query web_search_def searched_def)
   apply (simp add: demo_env_def demo_search_def demo_completion_def)
  apply (simp add: chunk_reply_def process_chunk_def token_step_def tool_step_def token_of_def world_chunk_def)
  done

lemma demo_stream_runs:
  "\<forall>c \<in> set [hello_chunk, search_chunk, world_chunk]. \<not> query_throws demo_env c"
  by (simp add: demo_no_query_throws)

text \<open>
  A stream of a text chunk, a search that succeeds and a second text chunk: the written text
  and the stored reply are the same.
\<close>

theorem chat_written_is_stored_reply_witness:
  "truthy (Str ''What is new?'')
   \<and> to_string demo_env (Str ''What is new?'') = Inr ''What is new?''
   \<and> create_stream demo_env
        (chat_request demo_env demo_globals (history_of no_sessions (Str ''s1''))
           ''What is new?'')
      = Stream [hello_chunk, search_chunk, world_chunk] None
   \<and> \<not> query_throws demo_env hello_chunk \<and> \<not> query_throws demo_env search_chunk
   \<and> \<not> query_throws demo_env world_chunk
   \<and> \<not> search_fails demo_env hello_chunk \<and> \<not> search_fails demo_env search_chunk
   \<and> \<not> search_fails demo_env world_chunk
   \<and> concat (written (fst (chat demo_env demo_globals no_sessions (Str ''What is new?'')
                              (Str ''s1''))))
      = ''Hello\<newline>\<newline>Nexus 2 is out. It is faster. world''
   \<and> snd (chat demo_env demo_globals no_sessions (Str ''What is new?'') (Str ''s1'')) (Str ''s1'')
      = Some [\<lparr>role = ''user'', content = Str ''What is new?''\<rparr>,
              \<lparr>role = ''assistant'',
               content = Str ''Hello\<newline>\<newline>Nexus 2 is out. It is faster. world''\<rparr>]"
proof -
  have t: "truthy (Str ''What is new?'')" by simp
  have p: "to_string demo_env (Str ''What is new?'') = Inr ''What is new?''" by simp
  have s: "create_stream demo_env
        (chat_request demo_env demo_globals (history_of no_sessions (Str ''s1''))
           ''What is new?'')
      = Stream [hello_chunk, search_chunk, world_chunk] None"
    by (simp add: demo_env_def demo_stream_def)
  have h: "history_of no_sessions (Str ''s1'') = []"
    by (simp add: history_of_def sessions_get_def no_sessions_def)
  note th = chat_written_is_stored_reply [OF t p s demo_stream_runs, of hello_chunk]
  have nf: "\<forall>c \<in> set [hello_chunk, search_chunk, world_chunk]. \<not> search_fails demo_env c"
    using demo_no_search_fails by simp
  have acc: "accumulated_reply demo_env [hello_chunk, search_chunk, world_chunk]
      = ''Hello\<newline>\<newline>Nexus 2 is out. It is faster. world''"
    using th by (simp add: demo_chunk_reply)
  have c: "concat (written (fst (chat demo_env demo_globals no_sessions (Str ''What is new?'')
                              (Str ''s1''))))
      = accumulated_reply demo_env [hello_chunk, search_chunk, world_chunk]"
    using th nf by blast
  have st: "snd (chat demo_env demo_globals no_sessions (Str ''What is new?'') (Str ''s1''))
      = sessions_set no_sessions (Str ''s1'')
          (history_of no_sessions (Str ''s1'') @
           [\<lparr>role = ''user'', content = Str ''What is new?''\<rparr>,
            \<lparr>role = ''assistant'',
             content = Str (accumulated_reply demo_env [hello_chunk, search_chunk, world_chunk])\<rparr>])"
    using th by blast
  show ?thesis
    using t p s demo_no_search_fails demo_no_query_throws
    by (simp add: c acc st h sessions_set_def)
qed

text \<open>
  C1 as it was stated fails when a web search fails: the stream runs to its end, the
  apology is written to the response, and the stored reply is empty.
\<close>

theorem chat_written_differs_from_stored_reply:
  "concat (written (fst (chat failing_search_env demo_globals no_sessions (Str ''What is new?'')
                           (Str ''s1''))))
     = apology
   \<and> snd (chat failing_search_env demo_globals no_sessions (Str ''What is new?'') (Str ''s1''))
        (Str ''s1'')
     = Some [\<lparr>role = ''user'', content = Str ''What is new?''\<rparr>,
             \<lparr>role = ''assistant'', content = Str []\<rparr>]
   \<and> apology \<noteq> []
   \<and> ends (fst (chat failing_search_env demo_globals no_sessions (Str ''What is new?'')
                   (Str ''s1''))) = [None]"
proof -
  have t: "truthy (Str ''What is new?'')" by simp
  have q: "to_string failing_search_env (Str ''What is new?'') = Inr ''What is new?''" by simp
  have s: "create_stream failing_search_env
        (chat_request failing_search_env demo_globals (history_of no_sessions (Str ''s1''))
           ''What is new?'')
      = Stream [search_chunk] None"
    by (simp add: failing_search_env_def demo_env_def search_only_stream_def)
  have r: "\<forall>c \<in> set [search_chunk]. \<not> query_throws failing_search_env c"
    by (simp add: demo_no_query_throws)
  have h: "history_of no_sessions (Str ''s1'') = []"
    by (simp add: history_of_def sessions_get_def no_sessions_def)
  have p: "process_chunk failing_search_env search_chunk st =
      ((fst st, snd st @ [Console ''log'' [Str (globe @ '' ME-AI websearch: nexus'')],
                          Search (Str ''nexus''),
                          Console ''error'' [Str ''Web search failed:'',
                                             Str ''Error: getaddrinfo ENOTFOUND''],
                          Write apology]), None)" for st
    apply (simp add: process_chunk_def token_step_def tool_step_def token_of_def
        search_chunk_def failing_search_query web_search_def searched_def)
    apply (simp add: failing_search_env_def demo_env_def failing_search_def)
    done
  have a: "accumulated_reply failing_search_env [search_chunk] = []"
    by (simp add: accumulated_reply_def p)
  note c = chat_completed [OF t q s r]
  have w: "written (fst (chat failing_search_env demo_globals no_sessions (Str ''What is new?'')
                           (Str ''s1''))) = [apology]"
    by (simp add: c p written_append written_stream_headers)
  have e: "ends (fst (chat failing_search_env demo_globals no_sessions (Str ''What is new?'')
                        (Str ''s1''))) = [None]"
    by (simp add: c p ends_append stream_headers_def)
  have st: "snd (chat failing_search_env demo_globals no_sessions (Str ''What is new?'')
                   (Str ''s1''))
      = sessions_set no_sessions (Str ''s1'')
          [\<lparr>role = ''user'', content = Str ''What is new?''\<rparr>,
           \<lparr>role = ''assistant'', content = Str []\<rparr>]"
    by (simp add: c h a)
  have n: "apology \<noteq> []"
    by (simp add: apology_def)
  show ?thesis
    using n by (simp add: w e st sessions_set_def)
qed

section \<open>Properties of the session-enabled chat handler\<close>

text \<open>When the response counts as started.\<close>

lemma headersSent_iff:
  "headersSent tr \<longleftrightarrow> written tr \<noteq> [] \<or> json_payloads tr \<noteq> [] \<or> ends tr \<noteq> []"
proof (induction tr)
  case Nil
  show ?case by (simp add: headersSent_def)
next
  case (Cons a tr)
  then show ?case by (cases a) (simp_all add: headersSent_def)
qed

text \<open>
  The loop writes text, searches, asks for summaries and logs; it neither sets a status, nor
  sends a JSON payload, nor ends the response, nor opens a second stream.
\<close>

lemma process_chunk_quiet:
  "json_payloads (snd (fst (process_chunk env c ([], [])))) = []"
  "statuses (snd (fst (process_chunk env c ([], [])))) = []"
  "ends (snd (fst (process_chunk env c ([], [])))) = []"
  "filter stream (provider_requests (snd (fst (process_chunk env c ([], []))))) = []"
  by (simp_all add: process_chunk_def token_step_def tool_step_def web_search_def searched_def
      Let_def followUp_request_def split: list.splits option.splits sum.splits)

lemma process_chunks_quiet:
  "json_payloads (snd (fst (process_chunks env cs ([], [])))) = []"
  "statuses (snd (fst (process_chunks env cs ([], [])))) = []"
  "ends (snd (fst (process_chunks env cs ([], [])))) = []"
  "filter stream (provider_requests (snd (fst (process_chunks env cs ([], []))))) = []"
proof (induction cs)
  case Nil
  { case 1 show ?case by simp }
  { case 2 show ?case by simp }
  { case 3 show ?case by simp }
  { case 4 show ?case by simp }
next
  case (Cons c cs)
  note e = process_chunks_extends [of env cs "fst (process_chunk env c ([], []))"]
  { case 1 show ?case
      using Cons.IH(1)
      by (simp add: e json_payloads_append process_chunk_quiet split: option.splits) }
  { case 2 show ?case
      using Cons.IH(2)
      by (simp add: e statuses_append process_chunk_quiet split: option.splits) }
  { case 3 show ?case
      using Cons.IH(3)
      by (simp add: e ends_append process_chunk_quiet split: option.splits) }
  { case 4 show ?case
      using Cons.IH(4)
      by (simp add: e provider_requests_append process_chunk_quiet split: option.splits) }
qed

lemma stream_headers_quiet:
  "json_payloads stream_headers = []" "statuses stream_headers = []" "ends stream_headers = []"
  "provider_requests stream_headers = []"
  by (simp_all add: stream_headers_def)

text \<open>The ways a request with a usable message ends without completing, in closed form.\<close>

lemma chat_unprintable:
  assumes "truthy msg" and "to_string env msg = Inl err"
  shows "chat env g sess msg sid =
     (stream_headers @
      [Console ''error'' [Str (cross_mark @ '' Chat stream error:''), Str err],
       Status 500, Json (Obj [(''error'', Str ''Streaming chat failed.'')])],
      sess)"
  using assms
  by (simp add: chat_def chat_failed_def headersSent_iff written_stream_headers
      stream_headers_quiet)

lemma chat_refused:
  assumes "truthy msg" and "to_string env msg = Inr shown"
    and "create_stream env (chat_request env g (history_of sess sid) shown) = CreateFailed err"
  shows "chat env g sess msg sid =
     (stream_headers @ [Create (chat_request env g (history_of sess sid) shown)] @
      [Console ''error'' [Str (cross_mark @ '' Chat stream error:''), Str err],
       Status 500, Json (Obj [(''error'', Str ''Streaming chat failed.'')])],
      sess)"
  using assms
  by (simp add: chat_def Let_def chat_failed_def headersSent_iff written_append
      json_payloads_append ends_append written_stream_headers stream_headers_quiet)

lemma chat_interrupted:
  assumes "truthy msg" and "to_string env msg = Inr shown"
    and "create_stream env (chat_request env g (history_of sess sid) shown) = Stream chunks fin"
    and "fin \<noteq> None \<or> snd (process_chunks env chunks ([], [])) \<noteq> None"
  shows "chat env g sess msg sid =
     (stream_headers @ [Create (chat_request env g (history_of sess sid) shown)] @
      snd (fst (process_chunks env chunks ([], []))) @
      Console ''error''
        [Str (cross_mark @ '' Chat stream error:''),
         Str (case snd (process_chunks env chunks ([], [])) of
                Some thrown \<Rightarrow> thrown
              | None \<Rightarrow> (case fin of Some err \<Rightarrow> err | None \<Rightarrow> []))] #
      (if written (snd (fst (process_chunks env chunks ([], [])))) = []
       then [Status 500, Json (Obj [(''error'', Str ''Streaming chat failed.'')])]
       else [End (Some error_marker)]),
      sess)"
proof -
  let ?tr0 = "stream_headers @ [Create (chat_request env g (history_of sess sid) shown)]"
  let ?P = "process_chunks env chunks ([], [])"
  have e: "process_chunks env chunks ([], ?tr0) = ((fst (fst ?P), ?tr0 @ snd (fst ?P)), snd ?P)"
    using process_chunks_extends [of env chunks "([], ?tr0)"] by simp
  have h: "headersSent (?tr0 @ snd (fst ?P)) \<longleftrightarrow> written (snd (fst ?P)) \<noteq> []"
    by (simp add: headersSent_iff written_append json_payloads_append ends_append
        written_stream_headers stream_headers_quiet process_chunks_quiet)
  show ?thesis
    using assms h
    by (auto simp add: chat_def Let_def chat_failed_def e split: option.splits)
qed

lemma streaming_request_of_chat:
  assumes "truthy msg" and "to_string env msg = Inr shown"
  shows "filter stream (provider_requests (fst (chat env g sess msg sid)))
     = [chat_request env g (history_of sess sid) shown]"
proof -
  let ?r = "chat_request env g (history_of sess sid) shown"
  have s: "stream ?r" by (simp add: chat_request_def)
  have q: "filter stream
             (provider_requests
                (snd (fst (process_chunks env cs ([], stream_headers @ [Create ?r])))))
      = [?r]" for cs
    using process_chunks_extends [of env cs "([], stream_headers @ [Create ?r])"] s
    by (simp add: provider_requests_append stream_headers_quiet process_chunks_quiet)
  show ?thesis
  proof (cases "create_stream env ?r")
    case (CreateFailed err)
    then show ?thesis
      using s
      by (simp add: chat_refused [OF assms] provider_requests_append stream_headers_quiet)
  next
    case (Stream chunks fin)
    then show ?thesis
      using assms q [of chunks]
      by (simp add: chat_def Let_def chat_failed_def provider_requests_append
          split: option.splits)
  qed
qed

text \<open>The example environments, evaluated.\<close>

lemma demo_accumulated_reply:
  "accumulated_reply demo_env [hello_chunk, search_chunk, world_chunk]
     = ''Hello\<newline>\<newline>Nexus 2 is out. It is faster. world''"
  by (simp add: accumulated_reply_eq demo_stream_runs demo_chunk_reply)

lemma no_sessions_history: "history_of no_sessions k = []"
  by (simp add: history_of_def sessions_get_def no_sessions_def)

lemma demo_env_stream:
  "create_stream demo_env r = Stream [hello_chunk, search_chunk, world_chunk] None"
  "create_stream refused_stream_env r = CreateFailed ''Error: 401 Incorrect API key''"
  "create_stream broken_stream_env r = Stream [hello_chunk] (Some ''Error: stream aborted'')"
  by (simp_all add: demo_env_def demo_stream_def refused_stream_env_def refused_stream_def
      broken_stream_env_def broken_stream_def)


subsection \<open>Failure of the provider call\<close>



subsection \<open>History across requests\<close>

text \<open>
  C4. Take two requests with usable messages, one after the other, carrying the same
  session identifier (a string, or any other value a \<^verbatim>\<open>Map\<close> compares by value), the
  first of which runs to the end of its stream; \<open>shown1\<close> and \<open>shown2\<close> are what the two
  messages print into their prompts. Then the one streaming request the second
  sends to the provider has, between the system instruction and the new user prompt, the
  history the first request found, followed by the first request's user message and by the
  first request's accumulated assistant reply.
\<close>

theorem second_request_carries_first_turns:
  assumes "truthy m1" and "truthy m2" and "\<not> by_identity sid"
    and "to_string env1 m1 = Inr shown1" and "to_string env2 m2 = Inr shown2"
    and "create_stream env1 (chat_request env1 g1 (history_of sess sid) shown1)
           = Stream chunks None"
    and "\<forall>c \<in> set chunks. \<not> query_throws env1 c"
  shows "filter stream
           (provider_requests (fst (chat env2 g2 (snd (chat env1 g1 sess m1 sid)) m2 sid)))
         = [chat_request env2 g2
              (history_of sess sid @
               [\<lparr>role = ''user'', content = m1\<rparr>,
                \<lparr>role = ''assistant'', content = Str (accumulated_reply env1 chunks)\<rparr>]) shown2]
       \<and> messages
           (chat_request env2 g2
              (history_of sess sid @
               [\<lparr>role = ''user'', content = m1\<rparr>,
                \<lparr>role = ''assistant'', content = Str (accumulated_reply env1 chunks)\<rparr>]) shown2)
         = \<lparr>role = ''system'', content = Str (systemPrompt env2)\<rparr> # history_of sess sid @
           [\<lparr>role = ''user'', content = m1\<rparr>,
            \<lparr>role = ''assistant'', content = Str (accumulated_reply env1 chunks)\<rparr>,
            \<lparr>role = ''user'',
             content = Str (''Here is the full dataset:\<newline>'' @ fullDatasetDump g2 @
                            ''\<newline>\<newline>User: '' @ shown2)\<rparr>]"
proof -
  have h: "history_of (snd (chat env1 g1 sess m1 sid)) sid
      = history_of sess sid @
          [\<lparr>role = ''user'', content = m1\<rparr>,
           \<lparr>role = ''assistant'', content = Str (accumulated_reply env1 chunks)\<rparr>]"
    using assms(3)
    by (simp add: chat_completed [OF assms(1) assms(4) assms(6) assms(7)] history_of_def
        sessions_get_def sessions_set_def)
  show ?thesis
    using streaming_request_of_chat [OF assms(2) assms(5), of g2
        "snd (chat env1 g1 sess m1 sid)" sid]
    by (simp add: h chat_request_def)
qed

text \<open>Two requests of the session \<open>s1\<close>, starting from an empty session map.\<close>

theorem second_request_carries_first_turns_witness:
  "truthy (Str ''What is new?'') \<and> truthy (Str ''And then?'') \<and> \<not> by_identity (Str ''s1'')
   \<and> to_string demo_env (Str ''What is new?'') = Inr ''What is new?''
   \<and> to_string demo_env (Str ''And then?'') = Inr ''And then?''
   \<and> create_stream demo_env
        (chat_request demo_env demo_globals (history_of no_sessions (Str ''s1''))
           ''What is new?'')
      = Stream [hello_chunk, search_chunk, world_chunk] None
   \<and> \<not> query_throws demo_env hello_chunk \<and> \<not> query_throws demo_env search_chunk
   \<and> \<not> query_throws demo_env world_chunk
   \<and> filter stream
        (provider_requests
           (fst (chat demo_env demo_globals
                   (snd (chat demo_env demo_globals no_sessions (Str ''What is new?'') (Str ''s1'')))
                   (Str ''And then?'') (Str ''s1''))))
      = [chat_request demo_env demo_globals
           [\<lparr>role = ''user'', content = Str ''What is new?''\<rparr>,
            \<lparr>role = ''assistant'',
             content = Str ''Hello\<newline>\<newline>Nexus 2 is out. It is faster. world''\<rparr>]
           ''And then?'']"
proof -
  have t1: "truthy (Str ''What is new?'')" by simp
  have t2: "truthy (Str ''And then?'')" by simp
  have k: "\<not> by_identity (Str ''s1'')" by simp
  have p1: "to_string demo_env (Str ''What is new?'') = Inr ''What is new?''" by simp
  have p2: "to_string demo_env (Str ''And then?'') = Inr ''And then?''" by simp
  have s: "create_stream demo_env
        (chat_request demo_env demo_globals (history_of no_sessions (Str ''s1''))
           ''What is new?'')
      = Stream [hello_chunk, search_chunk, world_chunk] None"
    by (rule demo_env_stream)
  note th = second_request_carries_first_turns [OF t1 t2 k p1 p2 s demo_stream_runs,
      of demo_globals, unfolded demo_accumulated_reply no_sessions_history append_Nil]
  have r: "filter stream
        (provider_requests
           (fst (chat demo_env demo_globals
                   (snd (chat demo_env demo_globals no_sessions (Str ''What is new?'') (Str ''s1'')))
                   (Str ''And then?'') (Str ''s1''))))
      = [chat_request demo_env demo_globals
           [\<lparr>role = ''user'', content = Str ''What is new?''\<rparr>,
            \<lparr>role = ''assistant'',
             content = Str ''Hello\<newline>\<newline>Nexus 2 is out. It is faster. world''\<rparr>]
           ''And then?'']"
    using th by blast
  show ?thesis
    using t1 t2 k p1 p2 s r demo_no_query_throws(1) [of demo_env] demo_no_query_throws(2)
      demo_no_query_throws(3) [of demo_env]
    by blast
qed

text \<open>
  C10. A request without \<^verbatim>\<open>sessionId\<close> reads its history under the key
  \<^verbatim>\<open>undefined\<close> and, when its stream runs to the end, stores the extended history under
  that same key, leaving every other key as it was. So the next request without
  \<^verbatim>\<open>sessionId\<close> does not start from an empty history: its prompt carries the turns of
  the first.
\<close>

theorem requests_without_sessionId_share_history:
  assumes "truthy m1" and "truthy m2"
    and "to_string env1 m1 = Inr shown1" and "to_string env2 m2 = Inr shown2"
    and "create_stream env1 (chat_request env1 g1 (history_of sess Undefined) shown1)
           = Stream chunks None"
    and "\<forall>c \<in> set chunks. \<not> query_throws env1 c"
  shows "history_of sess Undefined = (case sess Undefined of None \<Rightarrow> [] | Some h \<Rightarrow> h)
       \<and> snd (chat env1 g1 sess m1 Undefined)
         = sess(Undefined \<mapsto>
             history_of sess Undefined @
             [\<lparr>role = ''user'', content = m1\<rparr>,
              \<lparr>role = ''assistant'', content = Str (accumulated_reply env1 chunks)\<rparr>])
       \<and> filter stream
           (provider_requests
              (fst (chat env2 g2 (snd (chat env1 g1 sess m1 Undefined)) m2 Undefined)))
         = [chat_request env2 g2
              (history_of sess Undefined @
               [\<lparr>role = ''user'', content = m1\<rparr>,
                \<lparr>role = ''assistant'', content = Str (accumulated_reply env1 chunks)\<rparr>]) shown2]
       \<and> history_of (snd (chat env1 g1 sess m1 Undefined)) Undefined \<noteq> []"
proof -
  have s: "snd (chat env1 g1 sess m1 Undefined)
         = sess(Undefined \<mapsto>
             history_of sess Undefined @
             [\<lparr>role = ''user'', content = m1\<rparr>,
              \<lparr>role = ''assistant'', content = Str (accumulated_reply env1 chunks)\<rparr>])"
    by (simp add: chat_completed [OF assms(1) assms(3) assms(5) assms(6)] sessions_set_def)
  have h: "history_of (snd (chat env1 g1 sess m1 Undefined)) Undefined
      = history_of sess Undefined @
          [\<lparr>role = ''user'', content = m1\<rparr>,
           \<lparr>role = ''assistant'', content = Str (accumulated_reply env1 chunks)\<rparr>]"
    by (simp add: s history_of_def sessions_get_def)
  have r: "filter stream
           (provider_requests
              (fst (chat env2 g2 (snd (chat env1 g1 sess m1 Undefined)) m2 Undefined)))
         = [chat_request env2 g2
              (history_of sess Undefined @
               [\<lparr>role = ''user'', content = m1\<rparr>,
                \<lparr>role = ''assistant'', content = Str (accumulated_reply env1 chunks)\<rparr>]) shown2]"
    using streaming_request_of_chat [OF assms(2) assms(4), of g2
        "snd (chat env1 g1 sess m1 Undefined)" Undefined]
    by (simp add: h)
  have k: "history_of sess Undefined = (case sess Undefined of None \<Rightarrow> [] | Some h \<Rightarrow> h)"
    by (simp add: history_of_def sessions_get_def)
  have n: "history_of (snd (chat env1 g1 sess m1 Undefined)) Undefined \<noteq> []"
    by (simp add: h)
  show ?thesis
    using s r k n by blast
qed

text \<open>Two requests without \<^verbatim>\<open>sessionId\<close>, starting from an empty session map.\<close>

theorem requests_without_sessionId_share_history_witness:
  "truthy (Str ''What is new?'') \<and> truthy (Str ''And then?'')
   \<and> to_string demo_env (Str ''What is new?'') = Inr ''What is new?''
   \<and> to_string demo_env (Str ''And then?'') = Inr ''And then?''
   \<and> create_stream demo_env
        (chat_request demo_env demo_globals (history_of no_sessions Undefined) ''What is new?'')
      = Stream [hello_chunk, search_chunk, world_chunk] None
   \<and> \<not> query_throws demo_env hello_chunk \<and> \<not> query_throws demo_env search_chunk
   \<and> \<not> query_throws demo_env world_chunk
   \<and> snd (chat demo_env demo_globals no_sessions (Str ''What is new?'') Undefined) Undefined
      = Some [\<lparr>role = ''user'', content = Str ''What is new?''\<rparr>,
              \<lparr>role = ''assistant'',
               content = Str ''Hello\<newline>\<newline>Nexus 2 is out. It is faster. world''\<rparr>]
   \<and> filter stream
        (provider_requests
           (fst (chat demo_env demo_globals
                   (snd (chat demo_env demo_globals no_sessions (Str ''What is new?'') Undefined))
                   (Str ''And then?'') Undefined)))
      = [chat_request demo_env demo_globals
           [\<lparr>role = ''user'', content = Str ''What is new?''\<rparr>,
            \<lparr>role = ''assistant'',
             content = Str ''Hello\<newline>\<newline>Nexus 2 is out. It is faster. world''\<rparr>]
           ''And then?'']"
proof -
  have t1: "truthy (Str ''What is new?'')" by simp
  have t2: "truthy (Str ''And then?'')" by simp
  have p1: "to_string demo_env (Str ''What is new?'') = Inr ''What is new?''" by simp
  have p2: "to_string demo_env (Str ''And then?'') = Inr ''And then?''" by simp
  have s: "create_stream demo_env
        (chat_request demo_env demo_globals (history_of no_sessions Undefined) ''What is new?'')
      = Stream [hello_chunk, search_chunk, world_chunk] None"
    by (rule demo_env_stream)
  note th = requests_without_sessionId_share_history [OF t1 t2 p1 p2 s demo_stream_runs,
      of demo_globals, unfolded demo_accumulated_reply no_sessions_history append_Nil]
  have a: "snd (chat demo_env demo_globals no_sessions (Str ''What is new?'') Undefined)
      = no_sessions(Undefined \<mapsto>
          [\<lparr>role = ''user'', content = Str ''What is new?''\<rparr>,
           \<lparr>role = ''assistant'',
            content = Str ''Hello\<newline>\<newline>Nexus 2 is out. It is faster. world''\<rparr>])"
    using th by blast
  have a': "snd (chat demo_env demo_globals no_sessions (Str ''What is new?'') Undefined) Undefined
      = Some [\<lparr>role = ''user'', content = Str ''What is new?''\<rparr>,
              \<lparr>role = ''assistant'',
               content = Str ''Hello\<newline>\<newline>Nexus 2 is out. It is faster. world''\<rparr>]"
    by (simp add: a)
  have b: "filter stream
        (provider_requests
           (fst (chat demo_env demo_globals
                   (snd (chat demo_env demo_globals no_sessions (Str ''What is new?'') Undefined))
                   (Str ''And then?'') Undefined)))
      = [chat_request demo_env demo_globals
           [\<lparr>role = ''user'', content = Str ''What is new?''\<rparr>,
            \<lparr>role = ''assistant'',
             content = Str ''Hello\<newline>\<newline>Nexus 2 is out. It is faster. world''\<rparr>]
           ''And then?'']"
    using th by blast
  show ?thesis
    using t1 t2 p1 p2 s a' b demo_no_query_throws(1) [of demo_env] demo_no_query_throws(2)
      demo_no_query_throws(3) [of demo_env]
    by blast
qed

subsection \<open>The search tool call\<close>

lemma summary_line_eq:
  "summary_line env =
     (\<lambda>r. bullet @ '' ['' @ title r @ '']('' @ result_url r @ '') '' @ mdash @ '' '' @
          (case description r of None \<Rightarrow> [] | Some d \<Rightarrow> String_slice env d 0 200))"
  by (rule ext) (simp add: summary_line_def)

text \<open>
  C6 (as amended). Take a chunk whose first tool-call fragment names \<^verbatim>\<open>search\<close>; the
  handler reads no other fragment of a chunk. If its arguments do not parse as JSON, the
  invocation is skipped: a warning is logged, nothing is added to the reply, nothing is
  written and no search is made for it, and the loop goes on with the chunks that follow.
  If they parse to an object with a usable (truthy) query that prints as \<open>shown\<close>, the
  step stays in the loop and a web search is made with that query. When the search returns
  results, one more request is sent to the provider: it does not stream, and its messages
  are the system instruction and a user message that quotes \<open>shown\<close>, lists the first
  three results only, one line each with title, address and the first 200 units of the
  description, and asks for two concise sentences. When that call returns a summary that
  prints, the summary is appended, after a blank line, both to the accumulated reply and to
  the response. When the search throws no request is sent to the provider, and when the
  search or the summarising call throws the fixed apology is written and the reply is left
  as it was. When the parsed object has no usable query nothing is done.
\<close>

theorem search_tool_call_fragment:
  assumes "delta_tool_calls c = toolCall # others"
    and "tc_function toolCall = Some f"
    and "fn_name f = Some ''search''"
  shows "(JSON_parse env (arguments_text f) = Inl err \<longrightarrow>
            tool_step env c st =
              ((fst st,
                snd st @
                [Console ''warn''
                   [Str (warning_sign @ '' Skipping incomplete tool arguments:''),
                    (case fn_arguments f of None \<Rightarrow> Undefined | Some a \<Rightarrow> Str a)]]),
               None)
          \<and> written (snd (fst (process_chunk env c st))) = written (snd (token_step c st))
          \<and> fst (fst (process_chunk env c st)) = fst (token_step c st)
          \<and> process_chunks env (c # cs) st
              = process_chunks env cs (fst (process_chunk env c st)))
       \<and> (JSON_parse env (arguments_text f) = Inr (Obj kvs) \<and> truthy (get_prop kvs ''query'')
            \<and> to_string env (get_prop kvs ''query'') = Inr shown \<longrightarrow>
            snd (tool_step env c st) = None
          \<and> searches (snd (fst (tool_step env c st)))
              = searches (snd st) @ [get_prop kvs ''query'']
          \<and> (google_search env (get_prop kvs ''query'') = Inr results \<longrightarrow>
                provider_requests (snd (fst (tool_step env c st)))
                  = provider_requests (snd st) @
                    [\<lparr>model = ''gpt-4o-mini'', stream = False, temperature = ''0.3'',
                      tools = Undefined,
                      messages =
                        [\<lparr>role = ''system'', content = Str (systemPrompt env)\<rparr>,
                         \<lparr>role = ''user'',
                          content =
                            Str (''Here are web search results for \"'' @ shown @ ''\":\<newline>'' @
                                 join ''\<newline>''
                                   (map (\<lambda>r. bullet @ '' ['' @ title r @ '']('' @ result_url r @
                                              '') '' @ mdash @ '' '' @
                                              (case description r of
                                                 None \<Rightarrow> []
                                               | Some d \<Rightarrow> String_slice env d 0 200))
                                      (take 3 results)) @
                                 ''\<newline>\<newline>Summarize in two concise sentences.'')\<rparr>]\<rparr>]
              \<and> last (provider_requests (snd (fst (tool_step env c st))))
                  = followUp_request env shown results
              \<and> (create_completion env (followUp_request env shown results) = Inr final
                    \<and> to_string env final = Inr summary \<longrightarrow>
                    fst (fst (tool_step env c st)) = fst st @ ''\<newline>\<newline>'' @ summary
                  \<and> written (snd (fst (tool_step env c st)))
                      = written (snd st) @ [''\<newline>\<newline>'' @ summary])
              \<and> (create_completion env (followUp_request env shown results) = Inl err \<longrightarrow>
                    fst (fst (tool_step env c st)) = fst st
                  \<and> written (snd (fst (tool_step env c st))) = written (snd st) @ [apology]))
          \<and> (google_search env (get_prop kvs ''query'') = Inl err \<longrightarrow>
                provider_requests (snd (fst (tool_step env c st))) = provider_requests (snd st)
              \<and> fst (fst (tool_step env c st)) = fst st
              \<and> written (snd (fst (tool_step env c st))) = written (snd st) @ [apology]))
       \<and> (JSON_parse env (arguments_text f) = Inr (Obj kvs) \<and> \<not> truthy (get_prop kvs ''query'') \<longrightarrow>
            tool_step env c st = (st, None))
       \<and> tool_step env c st = tool_step env (c\<lparr>delta_tool_calls := [toolCall]\<rparr>) st"
proof -
  have a: "JSON_parse env (arguments_text f) = Inl err \<Longrightarrow>
      tool_step env c st' =
              ((fst st',
                snd st' @
                [Console ''warn''
                   [Str (warning_sign @ '' Skipping incomplete tool arguments:''),
                    (case fn_arguments f of None \<Rightarrow> Undefined | Some a \<Rightarrow> Str a)]]),
               None)" for st'
    using assms by (simp add: tool_step_def search_query_def)
  have a': "JSON_parse env (arguments_text f) = Inl err \<longrightarrow>
            tool_step env c st =
              ((fst st,
                snd st @
                [Console ''warn''
                   [Str (warning_sign @ '' Skipping incomplete tool arguments:''),
                    (case fn_arguments f of None \<Rightarrow> Undefined | Some a \<Rightarrow> Str a)]]),
               None)
          \<and> written (snd (fst (process_chunk env c st))) = written (snd (token_step c st))
          \<and> fst (fst (process_chunk env c st)) = fst (token_step c st)
          \<and> process_chunks env (c # cs) st
              = process_chunks env cs (fst (process_chunk env c st))"
    using a [of st] a [of "token_step c st"]
    by (simp add: process_chunk_def written_append)
  have b: "JSON_parse env (arguments_text f) = Inr (Obj kvs) \<Longrightarrow>
      truthy (get_prop kvs ''query'') \<Longrightarrow> to_string env (get_prop kvs ''query'') = Inr shown \<Longrightarrow>
      tool_step env c st = (searched env (get_prop kvs ''query'') shown st, None)"
    using assms by (simp add: tool_step_def search_query_def web_search_def)
  have b': "JSON_parse env (arguments_text f) = Inr (Obj kvs) \<and> truthy (get_prop kvs ''query'')
            \<and> to_string env (get_prop kvs ''query'') = Inr shown \<longrightarrow>
            snd (tool_step env c st) = None
          \<and> searches (snd (fst (tool_step env c st)))
              = searches (snd st) @ [get_prop kvs ''query'']
          \<and> (google_search env (get_prop kvs ''query'') = Inr results \<longrightarrow>
                provider_requests (snd (fst (tool_step env c st)))
                  = provider_requests (snd st) @
                    [\<lparr>model = ''gpt-4o-mini'', stream = False, temperature = ''0.3'',
                      tools = Undefined,
                      messages =
                        [\<lparr>role = ''system'', content = Str (systemPrompt env)\<rparr>,
                         \<lparr>role = ''user'',
                          content =
                            Str (''Here are web search results for \"'' @ shown @ ''\":\<newline>'' @
                                 join ''\<newline>''
                                   (map (\<lambda>r. bullet @ '' ['' @ title r @ '']('' @ result_url r @
                                              '') '' @ mdash @ '' '' @
                                              (case description r of
                                                 None \<Rightarrow> []
                                               | Some d \<Rightarrow> String_slice env d 0 200))
                                      (take 3 results)) @
                                 ''\<newline>\<newline>Summarize in two concise sentences.'')\<rparr>]\<rparr>]
              \<and> last (provider_requests (snd (fst (tool_step env c st))))
                  = followUp_request env shown results
              \<and> (create_completion env (followUp_request env shown results) = Inr final
                    \<and> to_string env final = Inr summary \<longrightarrow>
                    fst (fst (tool_step env c st)) = fst st @ ''\<newline>\<newline>'' @ summary
                  \<and> written (snd (fst (tool_step env c st)))
                      = written (snd st) @ [''\<newline>\<newline>'' @ summary])
              \<and> (create_completion env (followUp_request env shown results) = Inl err \<longrightarrow>
                    fst (fst (tool_step env c st)) = fst st
                  \<and> written (snd (fst (tool_step env c st))) = written (snd st) @ [apology]))
          \<and> (google_search env (get_prop kvs ''query'') = Inl err \<longrightarrow>
                provider_requests (snd (fst (tool_step env c st))) = provider_requests (snd st)
              \<and> fst (fst (tool_step env c st)) = fst st
              \<and> written (snd (fst (tool_step env c st))) = written (snd st) @ [apology])"
    using b
    by (auto simp add: searched_def Let_def searches_append provider_requests_append
        written_append followUp_request_def summary_line_eq split: sum.splits)
  have d: "JSON_parse env (arguments_text f) = Inr (Obj kvs) \<and> \<not> truthy (get_prop kvs ''query'') \<longrightarrow>
      tool_step env c st = (st, None)"
    using assms by (simp add: tool_step_def search_query_def)
  have o: "tool_step env c st = tool_step env (c\<lparr>delta_tool_calls := [toolCall]\<rparr>) st"
    using assms(1) by (simp add: tool_step_def)
  show ?thesis
    using a' b' d o by blast
qed

lemma cut_parse: "JSON_parse demo_env (arguments_text \<lparr>fn_name = Some ''search'', fn_arguments = Some ''{\"que''\<rparr>)
   = Inl ''SyntaxError: Unexpected end of JSON input''"
  by (simp add: demo_env_def arguments_text_def demo_parse_def)

lemma query_parse: "JSON_parse demo_env (arguments_text \<lparr>fn_name = Some ''search'', fn_arguments = Some ''{\"query\":\"nexus\"}''\<rparr>)
   = Inr (Obj [(''query'', Str ''nexus'')])"
  by (simp add: demo_env_def arguments_text_def demo_parse_def)

lemma demo_env_answers:
  "google_search demo_env q = Inr demo_results"
  "create_completion demo_env r = Inr (Str ''Nexus 2 is out. It is faster.'')"
  "systemPrompt demo_env = ''You are ME-AI.''"
  "String_slice demo_env d 0 200 = take 200 d"
  by (simp_all add: demo_env_def demo_search_def demo_completion_def demo_slice_def)

text \<open>
  The chunk with cut arguments is skipped and the next chunk is processed; the chunk asking
  for \<open>nexus\<close> is searched and summarised from the first three of four results.
\<close>

theorem search_tool_call_fragment_witness:
  "delta_tool_calls cut_chunk
     = [\<lparr>tc_function = Some \<lparr>fn_name = Some ''search'', fn_arguments = Some ''{\"que''\<rparr>\<rparr>]
   \<and> JSON_parse demo_env
        (arguments_text \<lparr>fn_name = Some ''search'', fn_arguments = Some ''{\"que''\<rparr>)
      = Inl ''SyntaxError: Unexpected end of JSON input''
   \<and> process_chunks demo_env [cut_chunk, hello_chunk] ([], [])
      = process_chunks demo_env [hello_chunk] (fst (process_chunk demo_env cut_chunk ([], [])))
   \<and> fst (fst (process_chunk demo_env cut_chunk ([], []))) = []
   \<and> written (snd (fst (process_chunk demo_env cut_chunk ([], [])))) = []
   \<and> delta_tool_calls search_chunk
     = [\<lparr>tc_function = Some \<lparr>fn_name = Some ''search'',
                              fn_arguments = Some ''{\"query\":\"nexus\"}''\<rparr>\<rparr>]
   \<and> JSON_parse demo_env
        (arguments_text \<lparr>fn_name = Some ''search'', fn_arguments = Some ''{\"query\":\"nexus\"}''\<rparr>)
      = Inr (Obj [(''query'', Str ''nexus'')])
   \<and> truthy (get_prop [(''query'', Str ''nexus'')] ''query'')
   \<and> to_string demo_env (get_prop [(''query'', Str ''nexus'')] ''query'') = Inr ''nexus''
   \<and> google_search demo_env (get_prop [(''query'', Str ''nexus'')] ''query'') = Inr demo_results
   \<and> create_completion demo_env (followUp_request demo_env ''nexus'' demo_results)
      = Inr (Str ''Nexus 2 is out. It is faster.'')
   \<and> to_string demo_env (Str ''Nexus 2 is out. It is faster.'')
      = Inr ''Nexus 2 is out. It is faster.''
   \<and> searches (snd (fst (tool_step demo_env search_chunk (''Hello'', [Write ''Hello'']))))
      = [Str ''nexus'']
   \<and> provider_requests (snd (fst (tool_step demo_env search_chunk (''Hello'', [Write ''Hello'']))))
      = [\<lparr>model = ''gpt-4o-mini'', stream = False, temperature = ''0.3'', tools = Undefined,
          messages =
            [\<lparr>role = ''system'', content = Str ''You are ME-AI.''\<rparr>,
             \<lparr>role = ''user'',
              content =
                Str (''Here are web search results for \"nexus\":\<newline>'' @
                     bullet @ '' [Nexus 2](https://a.example) '' @ mdash @ '' Released.\<newline>'' @
                     bullet @ '' [Nexus blog](https://b.example) '' @ mdash @ '' \<newline>'' @
                     bullet @ '' [Nexus docs](https://c.example) '' @ mdash @
                     '' \<newline>\<newline>Summarize in two concise sentences.'')\<rparr>]\<rparr>]
   \<and> fst (fst (tool_step demo_env search_chunk (''Hello'', [Write ''Hello''])))
      = ''Hello\<newline>\<newline>Nexus 2 is out. It is faster.''
   \<and> written (snd (fst (tool_step demo_env search_chunk (''Hello'', [Write ''Hello'']))))
      = [''Hello'', ''\<newline>\<newline>Nexus 2 is out. It is faster.'']"
proof -
  have c1: "delta_tool_calls cut_chunk
     = \<lparr>tc_function = Some \<lparr>fn_name = Some ''search'', fn_arguments = Some ''{\"que''\<rparr>\<rparr> # []"
    by (simp add: cut_chunk_def)
  have c2: "delta_tool_calls search_chunk
     = \<lparr>tc_function = Some \<lparr>fn_name = Some ''search'',
                              fn_arguments = Some ''{\"query\":\"nexus\"}''\<rparr>\<rparr> # []"
    by (simp add: search_chunk_def)
  have f1: "tc_function \<lparr>tc_function = Some \<lparr>fn_name = Some ''search'', fn_arguments = Some ''{\"que''\<rparr>\<rparr>
      = Some \<lparr>fn_name = Some ''search'', fn_arguments = Some ''{\"que''\<rparr>"
    by simp
  have f2: "tc_function \<lparr>tc_function = Some \<lparr>fn_name = Some ''search'',
                              fn_arguments = Some ''{\"query\":\"nexus\"}''\<rparr>\<rparr>
      = Some \<lparr>fn_name = Some ''search'', fn_arguments = Some ''{\"query\":\"nexus\"}''\<rparr>"
    by simp
  have n1: "fn_name \<lparr>fn_name = Some ''search'', fn_arguments = Some ''{\"que''\<rparr> = Some ''search''"
    by simp
  have n2: "fn_name \<lparr>fn_name = Some ''search'', fn_arguments = Some ''{\"query\":\"nexus\"}''\<rparr>
      = Some ''search''"
    by simp
  have tk: "token_step cut_chunk ([], []) = ([], [])"
    by (simp add: token_step_def token_of_def cut_chunk_def)
  have q: "get_prop [(''query'', Str ''nexus'')] ''query'' = Str ''nexus''"
    by (simp add: get_prop_def)
  have ts: "to_string demo_env (Str ''nexus'') = Inr ''nexus''"
      "to_string demo_env (Str ''Nexus 2 is out. It is faster.'')
        = Inr ''Nexus 2 is out. It is faster.''"
    by simp_all
  let ?H = "(''Hello'', [Write ''Hello''])"
  let ?K = "[(''query'', Str ''nexus'')]"
  let ?F = "Str ''Nexus 2 is out. It is faster.''"
  note cut = search_tool_call_fragment [OF c1 f1 n1, of demo_env
      "''SyntaxError: Unexpected end of JSON input''" "([], [])" "[hello_chunk]"]
  note hit = search_tool_call_fragment [OF c2 f2 n2, of demo_env _ ?H _
      ?K "''nexus''" demo_results ?F "''Nexus 2 is out. It is faster.''"]
  have t: "truthy (get_prop ?K ''query'')"
    by (simp add: q)
  have s: "to_string demo_env (get_prop ?K ''query'') = Inr ''nexus''"
    by (simp add: q)
  have g: "google_search demo_env (get_prop ?K ''query'') = Inr demo_results"
    by (rule demo_env_answers)
  have cc: "create_completion demo_env (followUp_request demo_env ''nexus'' demo_results) = Inr ?F"
    by (rule demo_env_answers)
  have k1a: "process_chunks demo_env (cut_chunk # [hello_chunk]) ([], [])
      = process_chunks demo_env [hello_chunk] (fst (process_chunk demo_env cut_chunk ([], [])))"
    using cut cut_parse by blast
  have k1b: "fst (fst (process_chunk demo_env cut_chunk ([], []))) = fst (token_step cut_chunk ([], []))"
    using cut cut_parse by blast
  have k1c: "written (snd (fst (process_chunk demo_env cut_chunk ([], []))))
      = written (snd (token_step cut_chunk ([], [])))"
    using cut cut_parse by blast
  have k2a: "searches (snd (fst (tool_step demo_env search_chunk ?H)))
      = searches (snd ?H) @ [get_prop ?K ''query'']"
    using hit query_parse t s by blast
  have k2b: "provider_requests (snd (fst (tool_step demo_env search_chunk ?H)))
      = provider_requests (snd ?H) @
                    [\<lparr>model = ''gpt-4o-mini'', stream = False, temperature = ''0.3'',
                      tools = Undefined,
                      messages =
                        [\<lparr>role = ''system'', content = Str (systemPrompt demo_env)\<rparr>,
                         \<lparr>role = ''user'',
                          content =
                            Str (''Here are web search results for \"'' @ ''nexus'' @ ''\":\<newline>'' @
                                 join ''\<newline>''
                                   (map (\<lambda>r. bullet @ '' ['' @ title r @ '']('' @ result_url r @
                                              '') '' @ mdash @ '' '' @
                                              (case description r of
                                                 None \<Rightarrow> []
                                               | Some d \<Rightarrow> String_slice demo_env d 0 200))
                                      (take 3 demo_results)) @
                                 ''\<newline>\<newline>Summarize in two concise sentences.'')\<rparr>]\<rparr>]"
    using hit query_parse t s g by blast
  have k2c: "fst (fst (tool_step demo_env search_chunk ?H))
      = fst ?H @ ''\<newline>\<newline>'' @ ''Nexus 2 is out. It is faster.''"
    using hit query_parse t s g cc ts(2) by blast
  have k2d: "written (snd (fst (tool_step demo_env search_chunk ?H)))
      = written (snd ?H) @ [''\<newline>\<newline>'' @ ''Nexus 2 is out. It is faster.'']"
    using hit query_parse t s g cc ts(2) by blast
  have e1: "process_chunks demo_env [cut_chunk, hello_chunk] ([], [])
      = process_chunks demo_env [hello_chunk] (fst (process_chunk demo_env cut_chunk ([], [])))"
    using k1a by simp
  have e2: "fst (fst (process_chunk demo_env cut_chunk ([], []))) = []"
    using k1b by (simp add: tk)
  have e3: "written (snd (fst (process_chunk demo_env cut_chunk ([], [])))) = []"
    using k1c by (simp add: tk)
  have e4: "searches (snd (fst (tool_step demo_env search_chunk ?H))) = [Str ''nexus'']"
    using k2a by (simp add: q)
  have e5: "provider_requests (snd (fst (tool_step demo_env search_chunk ?H)))
      = [\<lparr>model = ''gpt-4o-mini'', stream = False, temperature = ''0.3'', tools = Undefined,
          messages =
            [\<lparr>role = ''system'', content = Str ''You are ME-AI.''\<rparr>,
             \<lparr>role = ''user'',
              content =
                Str (''Here are web search results for \"nexus\":\<newline>'' @
                     bullet @ '' [Nexus 2](https://a.example) '' @ mdash @ '' Released.\<newline>'' @
                     bullet @ '' [Nexus blog](https://b.example) '' @ mdash @ '' \<newline>'' @
                     bullet @ '' [Nexus docs](https://c.example) '' @ mdash @
                     '' \<newline>\<newline>Summarize in two concise sentences.'')\<rparr>]\<rparr>]"
    using k2b by (simp add: demo_env_answers demo_results_def)
  have e6: "fst (fst (tool_step demo_env search_chunk ?H))
      = ''Hello\<newline>\<newline>Nexus 2 is out. It is faster.''"
    using k2c by simp
  have e7: "written (snd (fst (tool_step demo_env search_chunk ?H)))
      = [''Hello'', ''\<newline>\<newline>Nexus 2 is out. It is faster.'']"
    using k2d by simp
  have d1: "delta_tool_calls cut_chunk
     = [\<lparr>tc_function = Some \<lparr>fn_name = Some ''search'', fn_arguments = Some ''{\"que''\<rparr>\<rparr>]"
    by (rule c1)
  have d2: "delta_tool_calls search_chunk
     = [\<lparr>tc_function = Some \<lparr>fn_name = Some ''search'',
                              fn_arguments = Some ''{\"query\":\"nexus\"}''\<rparr>\<rparr>]"
    by (rule c2)
  show ?thesis
    using d1 cut_parse e1 e2 e3 d2 query_parse t s g cc ts(2) e4 e5 e6 e7 by blast
qed

text \<open>
  C6 as it was stated fails in two ways. A fragment naming \<^verbatim>\<open>search\<close> whose arguments
  parse to a query, in second place among the tool calls of its chunk, is not read: no
  search, no summary, nothing written. And when the search throws, the fragment in first
  place gets no summarising call and no summary: the apology is written and the reply stays
  empty.
\<close>

theorem search_fragment_unread_or_unanswered:
  "delta_tool_calls second_place_chunk
     = [\<lparr>tc_function = Some \<lparr>fn_name = Some ''lookup'', fn_arguments = Some ''{}''\<rparr>\<rparr>,
        \<lparr>tc_function = Some \<lparr>fn_name = Some ''search'',
                              fn_arguments = Some ''{\"query\":\"nexus\"}''\<rparr>\<rparr>]
   \<and> JSON_parse demo_env ''{\"query\":\"nexus\"}'' = Inr (Obj [(''query'', Str ''nexus'')])
   \<and> process_chunk demo_env second_place_chunk ([], []) = (([], []), None)
   \<and> JSON_parse failing_search_env ''{\"query\":\"nexus\"}'' = Inr (Obj [(''query'', Str ''nexus'')])
   \<and> searches (snd (fst (process_chunk failing_search_env search_chunk ([], [])))) = [Str ''nexus'']
   \<and> provider_requests (snd (fst (process_chunk failing_search_env search_chunk ([], [])))) = []
   \<and> fst (fst (process_chunk failing_search_env search_chunk ([], []))) = []
   \<and> written (snd (fst (process_chunk failing_search_env search_chunk ([], [])))) = [apology]"
proof -
  have p: "process_chunk failing_search_env search_chunk ([], []) =
      (([], [Console ''log'' [Str (globe @ '' ME-AI websearch: nexus'')],
             Search (Str ''nexus''),
             Console ''error'' [Str ''Web search failed:'', Str ''Error: getaddrinfo ENOTFOUND''],
             Write apology]), None)"
    apply (simp add: process_chunk_def token_step_def tool_step_def token_of_def
        search_chunk_def failing_search_query web_search_def searched_def)
    apply (simp add: failing_search_env_def demo_env_def failing_search_def)
    done
  have s: "process_chunk demo_env second_place_chunk ([], []) = (([], []), None)"
    by (simp add: process_chunk_def token_step_def tool_step_def token_of_def
        second_place_chunk_def)
  have d: "delta_tool_calls second_place_chunk
     = [\<lparr>tc_function = Some \<lparr>fn_name = Some ''lookup'', fn_arguments = Some ''{}''\<rparr>\<rparr>,
        \<lparr>tc_function = Some \<lparr>fn_name = Some ''search'',
                              fn_arguments = Some ''{\"query\":\"nexus\"}''\<rparr>\<rparr>]"
    by (simp add: second_place_chunk_def)
  have j1: "JSON_parse demo_env ''{\"query\":\"nexus\"}'' = Inr (Obj [(''query'', Str ''nexus'')])"
    by (simp add: demo_env_def demo_parse_def)
  have j2: "JSON_parse failing_search_env ''{\"query\":\"nexus\"}''
      = Inr (Obj [(''query'', Str ''nexus'')])"
    by (simp add: failing_search_env_def demo_env_def demo_parse_def)
  have p1: "searches (snd (fst (process_chunk failing_search_env search_chunk ([], []))))
      = [Str ''nexus'']"
    by (simp add: p)
  have p2: "provider_requests (snd (fst (process_chunk failing_search_env search_chunk ([], []))))
      = []"
    by (simp add: p)
  have p3: "fst (fst (process_chunk failing_search_env search_chunk ([], []))) = []"
    by (simp add: p)
  have p4: "written (snd (fst (process_chunk failing_search_env search_chunk ([], []))))
      = [apology]"
    by (simp add: p)
  show ?thesis
    using d j1 s j2 p1 p2 p3 p4 by blast
qed

section \<open>Properties of the token proxy\<close>

lemma handleAuthToken_missing:
  "missing_credential env \<Longrightarrow>
     handleAuthToken env =
       ([Console ''error'' [Str ''Missing Azure AD env vars'']],
        Inr (json_response env 500
               (Obj [(''error'',
                      Str ''Server is missing TENANT_ID, CLIENT_ID, or CLIENT_SECRET'')])))"
  by (auto simp add: handleAuthToken_def missing_credential_def)

lemma json_response_runtime:
  "JSON_stringify env2 = JSON_stringify env1 \<Longrightarrow> json_response env2 = json_response env1"
  by (rule ext)+ (simp add: json_response_def)

lemma auth_token_express_error:
  "statuses (auth_token_express env) \<noteq> [] \<Longrightarrow>
     client_visible (auth_token_express env) =
       [Status 500, Json (Obj [(''error'', Str ''Failed to fetch auth token'')])]"
  by (auto simp add: auth_token_express_def auth_token_failed_def split: sum.splits if_splits)

lemma handler_auth_route:
  assumes "first_truthy (requestContext_http_method ev) (httpMethod ev) ''GET'' = ''POST''"
    and "normalizePath (first_truthy (rawPath ev) (path ev) ''/'') = ''/auth-token''"
  shows "snd (handler env ev) = snd (caught env (handleAuthToken env))"
  using assms by (simp add: handler_def Let_def)

lemma handler_embed_route:
  assumes "first_truthy (requestContext_http_method ev) (httpMethod ev) ''GET'' = ''POST''"
    and "normalizePath (first_truthy (rawPath ev) (path ev) ''/'') = ''/embed-token''"
  shows "handler env ev =
     (fst (parse_body env (event_body ev)) @
        fst (caught env (handleEmbedToken env (snd (parse_body env (event_body ev))))),
      snd (caught env (handleEmbedToken env (snd (parse_body env (event_body ev))))))"
  using assms by (simp add: handler_def Let_def)

lemma demo_token_missing:
  "missing_credential no_secret_env" "missing_credential no_tenant_env"
  "JSON_stringify no_tenant_env = JSON_stringify no_secret_env"
  by (simp_all add: missing_credential_def no_secret_env_def no_tenant_env_def demo_token_env_def
      env_truthy_def)

lemma auth_event_route:
  "first_truthy (requestContext_http_method auth_event) (httpMethod auth_event) ''GET'' = ''POST''"
  "normalizePath (first_truthy (rawPath auth_event) (path auth_event) ''/'') = ''/auth-token''"
  by (simp_all add: auth_event_def first_truthy_def env_truthy_def env_text_def normalizePath_def)

lemma demo_fetch_refuses:
  "fetch no_secret_env r = refusing_fetch r" "fetch no_tenant_env r = refusing_fetch r"
  "fetch demo_token_env r = refusing_fetch r"
  by (simp_all add: no_secret_env_def no_tenant_env_def demo_token_env_def)

lemma demo_auth_express_status:
  "statuses (auth_token_express no_secret_env) = [500]"
  "statuses (auth_token_express no_tenant_env) = [500]"
  by (simp_all add: auth_token_express_def auth_token_failed_def demo_fetch_refuses
      refusing_fetch_def)

lemma handleEmbedToken_upstream_failure:
  assumes "member b ''authToken'' = Inr authToken" and "truthy authToken"
    and "to_string env authToken = Inr shown"
    and "fetch env (embed_request env shown) = Inr response" and "\<not> resp_ok response"
  shows "handleEmbedToken env b =
     ([Fetch (embed_request env shown),
       Console ''error'' [Str ''Embed token request failed:'', Num (int (resp_status response)),
                          Str (resp_text response)]],
      Inr (json_response env 500 (Obj [(''error'', Str ''Failed to get embed token'')])))"
  using assms by (simp add: handleEmbedToken_def)

lemma embed_token_express_upstream_failure:
  assumes "to_string env authToken = Inr shown"
    and "fetch env (embed_request env shown) = Inr response" and "\<not> resp_ok response"
  shows "embed_token_express env authToken =
     [Fetch (embed_request env shown),
      Console ''error'' [Str ''Embed token error:'', Str ''Error: Failed to get embed token''],
      Status 500, Json (Obj [(''error'', Str ''Failed to get embed token'')])]"
  using assms by (simp add: embed_token_express_def embed_token_failed_def)

lemma embed_event_route:
  "first_truthy (requestContext_http_method (embed_event b)) (httpMethod (embed_event b)) ''GET''
     = ''POST''"
  "normalizePath (first_truthy (rawPath (embed_event b)) (path (embed_event b)) ''/'')
     = ''/embed-token''"
  "event_body (embed_event b) = b"
  by (simp_all add: embed_event_def first_truthy_def env_truthy_def env_text_def normalizePath_def)

lemma demo_parse_body:
  "parse_body demo_token_env (Some ''{\"authToken\":\"abc\"}'') = ([], Obj [(''authToken'', Str ''abc'')])"
  "parse_body demo_token_env (Some ''null'') = ([], Null)"
  "parse_body demo_token_env None = ([], Obj [])"
  by (simp_all add: parse_body_def env_truthy_def env_text_def demo_token_env_def demo_parse_def)

text \<open>What the Lambda does with a body that has no usable token.\<close>

lemma handleEmbedToken_rejects_missing_authToken:
  assumes "member b ''authToken'' = Inr authToken" and "\<not> truthy authToken"
  shows "handleEmbedToken env b =
     ([], Inr (json_response env 400 (Obj [(''error'', Str ''Missing 'authToken' in request body'')])))"
  using assms by (simp add: handleEmbedToken_def)

text \<open>
  A token that the template literal cannot print never reaches the BI service: the Express
  handler answers from its \<^verbatim>\<open>catch\<close>, the Lambda's route function throws.
\<close>

lemma embed_token_unprintable:
  assumes "to_string env authToken = Inl err"
  shows "embed_token_express env authToken = embed_token_failed err"
    and "member b ''authToken'' = Inr authToken \<Longrightarrow> truthy authToken \<Longrightarrow>
         handleEmbedToken env b = ([], Inl err)"
  using assms by (simp_all add: embed_token_express_def handleEmbedToken_def)

subsection \<open>Missing credentials\<close>

text \<open>
  C8. Take two configurations that each lack at least one of the tenant identifier, the
  client identifier and the client secret (absent or empty), on the same runtime. The Lambda
  answers both with the same result, console line included: status 500 and one fixed
  message that names all three variables and so does not tell which one is missing; the
  same holds for the answer of \<^verbatim>\<open>handler\<close> to a POST on \<^verbatim>\<open>/auth-token\<close>. The Express
  handler does not look at the configuration: whenever its answer is an error, what the
  client sees is status 500 with the fixed payload \<^verbatim>\<open>Failed to fetch auth token\<close>, so two
  error answers never differ, whatever is missing.
\<close>

theorem auth_token_error_hides_missing_credential:
  assumes "missing_credential env1" and "missing_credential env2"
    and "JSON_stringify env2 = JSON_stringify env1"
  shows "handleAuthToken env1 = handleAuthToken env2
       \<and> handleAuthToken env1 =
           ([Console ''error'' [Str ''Missing Azure AD env vars'']],
            Inr \<lparr>statusCode = 500,
                 headers = CORS_HEADERS @ [(''Content-Type'', ''application/json'')],
                 body = JSON_stringify env1
                          (Obj [(''error'',
                                 Str ''Server is missing TENANT_ID, CLIENT_ID, or CLIENT_SECRET'')])\<rparr>)
       \<and> (first_truthy (requestContext_http_method ev) (httpMethod ev) ''GET'' = ''POST''
            \<and> normalizePath (first_truthy (rawPath ev) (path ev) ''/'') = ''/auth-token'' \<longrightarrow>
            snd (handler env1 ev) = snd (handler env2 ev)
          \<and> statusCode (snd (handler env1 ev)) = 500)
       \<and> (statuses (auth_token_express env1) \<noteq> [] \<longrightarrow>
            client_visible (auth_token_express env1) =
              [Status 500, Json (Obj [(''error'', Str ''Failed to fetch auth token'')])])
       \<and> (statuses (auth_token_express env1) \<noteq> [] \<and> statuses (auth_token_express env2) \<noteq> [] \<longrightarrow>
            client_visible (auth_token_express env1) = client_visible (auth_token_express env2))"
proof -
  have j: "json_response env2 = json_response env1"
    using assms(3) by (rule json_response_runtime)
  have l: "handleAuthToken env1 = handleAuthToken env2"
    by (simp add: handleAuthToken_missing assms(1) assms(2) j)
  have c: "caught env2 = caught env1"
    by (rule ext) (simp add: caught_def j split: sum.splits)
  have v: "handleAuthToken env1 =
           ([Console ''error'' [Str ''Missing Azure AD env vars'']],
            Inr \<lparr>statusCode = 500,
                 headers = CORS_HEADERS @ [(''Content-Type'', ''application/json'')],
                 body = JSON_stringify env1
                          (Obj [(''error'',
                                 Str ''Server is missing TENANT_ID, CLIENT_ID, or CLIENT_SECRET'')])\<rparr>)"
    by (simp add: handleAuthToken_missing assms(1) json_response_def)
  have h: "first_truthy (requestContext_http_method ev) (httpMethod ev) ''GET'' = ''POST''
            \<and> normalizePath (first_truthy (rawPath ev) (path ev) ''/'') = ''/auth-token'' \<longrightarrow>
            snd (handler env1 ev) = snd (handler env2 ev)
          \<and> statusCode (snd (handler env1 ev)) = 500"
    by (simp add: handler_auth_route c l [symmetric]) (simp add: v caught_def)
  have e: "statuses (auth_token_express env1) \<noteq> [] \<and> statuses (auth_token_express env2) \<noteq> [] \<longrightarrow>
            client_visible (auth_token_express env1) = client_visible (auth_token_express env2)"
    by (simp add: auth_token_express_error)
  show ?thesis
    using l v h e auth_token_express_error [of env1] by blast
qed

text \<open>
  One configuration without the client secret, one with an empty tenant identifier: the
  answers cannot be told apart.
\<close>

theorem auth_token_error_hides_missing_credential_witness:
  "missing_credential no_secret_env \<and> missing_credential no_tenant_env
   \<and> JSON_stringify no_tenant_env = JSON_stringify no_secret_env
   \<and> handleAuthToken no_secret_env = handleAuthToken no_tenant_env
   \<and> first_truthy (requestContext_http_method auth_event) (httpMethod auth_event) ''GET'' = ''POST''
   \<and> normalizePath (first_truthy (rawPath auth_event) (path auth_event) ''/'') = ''/auth-token''
   \<and> snd (handler no_secret_env auth_event) = snd (handler no_tenant_env auth_event)
   \<and> statusCode (snd (handler no_secret_env auth_event)) = 500
   \<and> statuses (auth_token_express no_secret_env) = [500]
   \<and> statuses (auth_token_express no_tenant_env) = [500]
   \<and> client_visible (auth_token_express no_secret_env)
      = client_visible (auth_token_express no_tenant_env)
   \<and> client_visible (auth_token_express no_secret_env)
      = [Status 500, Json (Obj [(''error'', Str ''Failed to fetch auth token'')])]"
proof -
  note th = auth_token_error_hides_missing_credential [OF demo_token_missing, of auth_event]
  have l: "handleAuthToken no_secret_env = handleAuthToken no_tenant_env"
    using th by blast
  have h: "snd (handler no_secret_env auth_event) = snd (handler no_tenant_env auth_event)
      \<and> statusCode (snd (handler no_secret_env auth_event)) = 500"
    using th auth_event_route by blast
  have n: "statuses (auth_token_express no_secret_env) \<noteq> []"
      "statuses (auth_token_express no_tenant_env) \<noteq> []"
    by (simp_all add: demo_auth_express_status)
  have e: "client_visible (auth_token_express no_secret_env)
      = client_visible (auth_token_express no_tenant_env)"
    using th n by blast
  have f: "client_visible (auth_token_express no_secret_env)
      = [Status 500, Json (Obj [(''error'', Str ''Failed to fetch auth token'')])]"
    using th n by blast
  show ?thesis
    using demo_token_missing auth_event_route l h e f demo_auth_express_status by blast
qed

subsection \<open>Upstream failure of the embed token\<close>

text \<open>
  C9. When the request carries a usable (truthy) \<^verbatim>\<open>authToken\<close>, which the
  \<^verbatim>\<open>Authorization\<close> header prints as \<open>shown\<close>, and the BI service answers the request
  made with it with a status that is not a success, the client receives status 500 with the fixed
  error object \<^verbatim>\<open>{error: "Failed to get embed token"}\<close>: from the Express handler, from
  the Lambda's \<^verbatim>\<open>handleEmbedToken\<close>, and from \<^verbatim>\<open>handler\<close> on a POST to
  \<^verbatim>\<open>/embed-token\<close>. The answer is the same whatever the upstream status and body are;
  the Lambda passes them to the console only.
\<close>

theorem embed_token_upstream_failure_is_generic:
  assumes "truthy authToken"
    and "to_string env authToken = Inr shown"
    and "fetch env (embed_request env shown) = Inr response"
    and "\<not> resp_ok response"
  shows "client_visible (embed_token_express env authToken) =
           [Status 500, Json (Obj [(''error'', Str ''Failed to get embed token'')])]
       \<and> (member b ''authToken'' = Inr authToken \<longrightarrow>
            snd (handleEmbedToken env b) =
              Inr \<lparr>statusCode = 500,
                   headers = CORS_HEADERS @ [(''Content-Type'', ''application/json'')],
                   body = JSON_stringify env (Obj [(''error'', Str ''Failed to get embed token'')])\<rparr>
          \<and> fst (handleEmbedToken env b) =
              [Fetch (embed_request env shown),
               Console ''error'' [Str ''Embed token request failed:'',
                                  Num (int (resp_status response)), Str (resp_text response)]])
       \<and> (first_truthy (requestContext_http_method ev) (httpMethod ev) ''GET'' = ''POST''
            \<and> normalizePath (first_truthy (rawPath ev) (path ev) ''/'') = ''/embed-token''
            \<and> member (snd (parse_body env (event_body ev))) ''authToken'' = Inr authToken \<longrightarrow>
            snd (handler env ev) =
              \<lparr>statusCode = 500,
               headers = CORS_HEADERS @ [(''Content-Type'', ''application/json'')],
               body = JSON_stringify env (Obj [(''error'', Str ''Failed to get embed token'')])\<rparr>)"
proof -
  have x: "client_visible (embed_token_express env authToken) =
           [Status 500, Json (Obj [(''error'', Str ''Failed to get embed token'')])]"
    by (simp add: embed_token_express_upstream_failure [OF assms(2) assms(3) assms(4)])
  have l: "member b' ''authToken'' = Inr authToken \<Longrightarrow>
      handleEmbedToken env b' =
     ([Fetch (embed_request env shown),
       Console ''error'' [Str ''Embed token request failed:'', Num (int (resp_status response)),
                          Str (resp_text response)]],
      Inr \<lparr>statusCode = 500,
           headers = CORS_HEADERS @ [(''Content-Type'', ''application/json'')],
           body = JSON_stringify env (Obj [(''error'', Str ''Failed to get embed token'')])\<rparr>)" for b'
    using handleEmbedToken_upstream_failure [OF _ assms] by (simp add: json_response_def)
  have h: "first_truthy (requestContext_http_method ev) (httpMethod ev) ''GET'' = ''POST''
            \<and> normalizePath (first_truthy (rawPath ev) (path ev) ''/'') = ''/embed-token''
            \<and> member (snd (parse_body env (event_body ev))) ''authToken'' = Inr authToken \<longrightarrow>
            snd (handler env ev) =
              \<lparr>statusCode = 500,
               headers = CORS_HEADERS @ [(''Content-Type'', ''application/json'')],
               body = JSON_stringify env (Obj [(''error'', Str ''Failed to get embed token'')])\<rparr>"
    by (simp add: handler_embed_route l caught_def)
  show ?thesis
    using x l [of b] h by simp
qed

text \<open>An upstream 401 with a body of its own: the client sees the fixed object only.\<close>

theorem embed_token_upstream_failure_is_generic_witness:
  "truthy (Str ''abc'')
   \<and> to_string demo_token_env (Str ''abc'') = Inr ''abc''
   \<and> fetch demo_token_env (embed_request demo_token_env ''abc'')
      = Inr \<lparr>resp_ok = False, resp_status = 401,
             resp_text = ''{\"error\":{\"code\":\"TokenExpired\"}}''\<rparr>
   \<and> \<not> resp_ok \<lparr>resp_ok = False, resp_status = 401,
                  resp_text = ''{\"error\":{\"code\":\"TokenExpired\"}}''\<rparr>
   \<and> client_visible (embed_token_express demo_token_env (Str ''abc''))
      = [Status 500, Json (Obj [(''error'', Str ''Failed to get embed token'')])]
   \<and> member (snd (parse_body demo_token_env
                     (event_body (embed_event (Some ''{\"authToken\":\"abc\"}'')))))
        ''authToken'' = Inr (Str ''abc'')
   \<and> snd (handler demo_token_env (embed_event (Some ''{\"authToken\":\"abc\"}'')))
      = \<lparr>statusCode = 500,
         headers = CORS_HEADERS @ [(''Content-Type'', ''application/json'')],
         body = ''{\"error\":\"Failed to get embed token\"}''\<rparr>"
proof -
  have t: "truthy (Str ''abc'')" by simp
  have p: "to_string demo_token_env (Str ''abc'') = Inr ''abc''" by simp
  have f: "fetch demo_token_env (embed_request demo_token_env ''abc'')
      = Inr \<lparr>resp_ok = False, resp_status = 401,
             resp_text = ''{\"error\":{\"code\":\"TokenExpired\"}}''\<rparr>"
    by (simp add: demo_fetch_refuses refusing_fetch_def)
  have n: "\<not> resp_ok \<lparr>resp_ok = False, resp_status = 401,
                  resp_text = ''{\"error\":{\"code\":\"TokenExpired\"}}''\<rparr>"
    by simp
  have m: "member (snd (parse_body demo_token_env
                     (event_body (embed_event (Some ''{\"authToken\":\"abc\"}'')))))
        ''authToken'' = Inr (Str ''abc'')"
    by (simp add: embed_event_route demo_parse_body get_prop_def)
  have s: "JSON_stringify demo_token_env (Obj [(''error'', Str ''Failed to get embed token'')])
      = ''{\"error\":\"Failed to get embed token\"}''"
    by (simp add: demo_token_env_def)
  note th = embed_token_upstream_failure_is_generic [OF t p f n,
      of _ "embed_event (Some ''{\"authToken\":\"abc\"}'')", unfolded s]
  have x: "client_visible (embed_token_express demo_token_env (Str ''abc''))
      = [Status 500, Json (Obj [(''error'', Str ''Failed to get embed token'')])]"
    using th by blast
  have h: "snd (handler demo_token_env (embed_event (Some ''{\"authToken\":\"abc\"}'')))
      = \<lparr>statusCode = 500,
         headers = CORS_HEADERS @ [(''Content-Type'', ''application/json'')],
         body = ''{\"error\":\"Failed to get embed token\"}''\<rparr>"
    using th m embed_event_route(1,2) by blast
  show ?thesis
    using t p f n x m h by blast
qed

subsection \<open>A request without token\<close>

text \<open>
  C2 says that a POST to \<^verbatim>\<open>/embed-token\<close> without \<^verbatim>\<open>authToken\<close> is answered with a
  400-class status and without an outbound call. The Lambda does so for every body that
  parses to something other than \<^verbatim>\<open>null\<close> (lemma
  \<open>handleEmbedToken_rejects_missing_authToken\<close>). The code departs from it in two places,
  evaluated here: the Express handler has no such check, calls the BI service with the header
  \<^verbatim>\<open>Authorization: Bearer undefined\<close> and never answers 400; and the Lambda, given the
  JSON body \<^verbatim>\<open>null\<close>, throws on reading \<^verbatim>\<open>body.authToken\<close> and answers 500.
\<close>

theorem embed_token_without_authToken_reaches_upstream:
  "fetches (embed_token_express env Undefined) = [embed_request env ''undefined'']
   \<and> req_headers (embed_request env ''undefined'')
      = [(''Content-Type'', ''application/json''), (''Authorization'', ''Bearer undefined'')]
   \<and> 400 \<notin> set (statuses (embed_token_express env Undefined))
   \<and> handleEmbedToken env Null
      = ([], Inl (type_error ''null'' ''authToken''))
   \<and> snd (caught env (handleEmbedToken env Null))
      = json_response env 500 (Obj [(''error'', Str ''Internal server error'')])
   \<and> statusCode (snd (handler demo_token_env (embed_event (Some ''null'')))) = 500"
proof -
  have a: "fetches (embed_token_express env Undefined) = [embed_request env ''undefined'']"
    by (simp add: embed_token_express_def embed_token_failed_def split: sum.splits)
  have b: "400 \<notin> set (statuses (embed_token_express env Undefined))"
    by (simp add: embed_token_express_def embed_token_failed_def split: sum.splits)
  have c: "handleEmbedToken env' Null
      = ([], Inl (type_error ''null'' ''authToken''))" for env'
    by (simp add: handleEmbedToken_def)
  have d: "statusCode (snd (handler demo_token_env (embed_event (Some ''null'')))) = 500"
    by (simp add: handler_embed_route embed_event_route demo_parse_body c caught_def
        json_response_def)
  show ?thesis
    using a b d by (simp add: c caught_def embed_request_def)
qed

section \<open>Validation of the chat message\<close>

text \<open>
  Both chat handlers answer 400 to a missing or empty message before any other call; the
  variant without sessions does the same for a message that is not a string.
\<close>

lemma chat_basic_rejects:
  "\<not> truthy msg \<or> \<not> is_string msg \<Longrightarrow>
     chat_basic env ds msg =
       [Status 400, Json (Obj [(''error'', Str ''Missing or invalid 'message'.'')])]"
  by (auto simp add: chat_basic_def)

lemma chat_rejects_falsy:
  "\<not> truthy msg \<Longrightarrow>
     chat env g sess msg sid = ([Status 400, Json (Obj [(''error'', Str ''Missing 'message'.'')])], sess)"
  by (simp add: chat_def)

lemma chat_statuses:
  assumes "truthy msg"
  shows "400 \<notin> set (statuses (fst (chat env g sess msg sid)))"
proof (cases "to_string env msg")
  case (Inl err)
  show ?thesis
    by (simp add: chat_unprintable [OF assms Inl] statuses_append stream_headers_quiet)
next
  case (Inr shown)
  show ?thesis
  proof (cases "create_stream env (chat_request env g (history_of sess sid) shown)")
    case (CreateFailed err)
    then show ?thesis
      by (simp add: chat_refused [OF assms Inr] statuses_append stream_headers_quiet)
  next
    case (Stream chunks fin)
    show ?thesis
    proof (cases "fin \<noteq> None \<or> snd (process_chunks env chunks ([], [])) \<noteq> None")
      case True
      show ?thesis
        by (simp add: chat_interrupted [OF assms Inr Stream True] statuses_append
            stream_headers_quiet process_chunks_quiet)
    next
      case False
      then have n: "fin = None" and r: "snd (process_chunks env chunks ([], [])) = None"
        by simp_all
      have q: "\<forall>c \<in> set chunks. \<not> query_throws env c"
        using r by (simp add: process_chunks_runs_iff)
      show ?thesis
        using process_chunks_extends [of env chunks
            "([], stream_headers @ [Create (chat_request env g (history_of sess sid) shown)])"]
        by (simp add: chat_completed [OF assms Inr Stream [unfolded n] q] statuses_append
            stream_headers_quiet process_chunks_quiet)
    qed
  qed
qed

text \<open>
  C3 says that a message that is not a string is answered with a 400-class status and that
  the provider is not contacted. The variant without sessions does so. The session-enabled
  variant tests \<^verbatim>\<open>!message\<close> only: given the number 42 it sends the streaming request to
  the provider (the prompt ends with the digits the runtime prints for it), never answers 400, and on completion stores the number as the content of a
  user turn, which every later request of the session sends to the provider again.
\<close>

theorem chat_accepts_non_string_message:
  "filter stream (provider_requests (fst (chat env g sess (Num 42) sid)))
     = [chat_request env g (history_of sess sid) (Number_toString env 42)]
   \<and> 400 \<notin> set (statuses (fst (chat env g sess (Num 42) sid)))
   \<and> \<not> is_string (Num 42)
   \<and> chat_basic env' ds (Num 42)
      = [Status 400, Json (Obj [(''error'', Str ''Missing or invalid 'message'.'')])]
   \<and> snd (chat demo_env demo_globals no_sessions (Num 42) (Str ''s1'')) (Str ''s1'')
      = Some [\<lparr>role = ''user'', content = Num 42\<rparr>,
              \<lparr>role = ''assistant'',
               content = Str ''Hello\<newline>\<newline>Nexus 2 is out. It is faster. world''\<rparr>]"
proof -
  have t: "truthy (Num 42)" by simp
  have p: "to_string e (Num 42) = Inr (Number_toString e 42)" for e :: chat_env
    by simp
  have s: "create_stream demo_env
        (chat_request demo_env demo_globals (history_of no_sessions (Str ''s1''))
           (Number_toString demo_env 42))
      = Stream [hello_chunk, search_chunk, world_chunk] None"
    by (rule demo_env_stream)
  have d: "snd (chat demo_env demo_globals no_sessions (Num 42) (Str ''s1'')) (Str ''s1'')
      = Some [\<lparr>role = ''user'', content = Num 42\<rparr>,
              \<lparr>role = ''assistant'',
               content = Str ''Hello\<newline>\<newline>Nexus 2 is out. It is faster. world''\<rparr>]"
    by (simp add: chat_completed [OF t p s demo_stream_runs] demo_accumulated_reply
        no_sessions_history sessions_set_def)
  show ?thesis
    using streaming_request_of_chat [OF t p, of env g sess sid]
      chat_statuses [OF t, of env g sess sid] d
    by (simp add: chat_basic_rejects)
qed

text \<open>The same, on the example environment and an empty session map.\<close>

theorem chat_accepts_non_string_message_witness:
  "filter stream
     (provider_requests (fst (chat demo_env demo_globals no_sessions (Num 42) (Str ''s1''))))
     = [chat_request demo_env demo_globals [] ''42'']
   \<and> 400 \<notin> set (statuses (fst (chat demo_env demo_globals no_sessions (Num 42) (Str ''s1''))))
   \<and> chat_basic demo_env [row_a] (Num 42)
      = [Status 400, Json (Obj [(''error'', Str ''Missing or invalid 'message'.'')])]"
proof -
  have n: "Number_toString demo_env 42 = ''42''"
    unfolding demo_env_def by code_simp
  note th = chat_accepts_non_string_message [of demo_env demo_globals no_sessions "Str ''s1''"
      demo_env "[row_a]", unfolded no_sessions_history n]
  have a: "filter stream
     (provider_requests (fst (chat demo_env demo_globals no_sessions (Num 42) (Str ''s1''))))
     = [chat_request demo_env demo_globals [] ''42'']"
    using th by blast
  have b: "400 \<notin> set (statuses (fst (chat demo_env demo_globals no_sessions (Num 42) (Str ''s1''))))"
    using th by blast
  have c: "chat_basic demo_env [row_a] (Num 42)
      = [Status 400, Json (Obj [(''error'', Str ''Missing or invalid 'message'.'')])]"
    using th by blast
  show ?thesis
    using a b c by blast
qed

end
